theory Spec2Isabelle
  imports Main
begin

section \<open>Python text primitives used by the wallpaper publisher\<close>

text \<open>
  The theory embeds \<^verbatim>\<open>wallpaper_publisher.py\<close>. The object and its widgets are a record
  that every method takes and returns. What the program gets from outside (the
  environment, the file dialog, the three services, \<^verbatim>\<open>uuid.uuid4\<close>, \<^verbatim>\<open>json.loads\<close>) is an
  argument of the function that uses it, and an exception is a value carrying its text.
  A background thread is a function from the form it reads to the service calls it
  makes and the callbacks it hands to the main loop; the callbacks are then run in
  order on the form.

  Python \<^verbatim>\<open>str\<close> values are modelled as HOL strings; a \<^typ>\<open>char\<close> stands for the code
  point of the same number, so the model covers text in the range U+0000 .. U+00FF.
  \<^verbatim>\<open>str.isspace\<close> is true in that range for exactly the code points 9-13, 28-32, 133 and
  160; these are the characters \<^verbatim>\<open>str.strip()\<close> removes.
\<close>

definition py_isspace :: "char \<Rightarrow> bool" where
  "py_isspace c =
     (let n = (of_char c :: nat)
      in (9 \<le> n \<and> n \<le> 13) \<or> (28 \<le> n \<and> n \<le> 32) \<or> n = 133 \<or> n = 160)"

definition py_lstrip :: "string \<Rightarrow> string" where
  "py_lstrip s = dropWhile py_isspace s"

definition py_rstrip :: "string \<Rightarrow> string" where
  "py_rstrip s = rev (dropWhile py_isspace (rev s))"

text \<open>\<^verbatim>\<open>s.strip()\<close>\<close>

definition py_strip :: "string \<Rightarrow> string" where
  "py_strip s = py_rstrip (py_lstrip s)"

text \<open>\<^verbatim>\<open>s.strip(chars)\<close>\<close>

definition py_strip_chars :: "string \<Rightarrow> string \<Rightarrow> string" where
  "py_strip_chars chars s =
     rev (dropWhile (\<lambda>c. c \<in> set chars) (rev (dropWhile (\<lambda>c. c \<in> set chars) s)))"

text \<open>\<^verbatim>\<open>s.split(sep)\<close> for a one-character separator: \<^verbatim>\<open>''.split(',') == ['']\<close>.\<close>

fun py_split :: "char \<Rightarrow> string \<Rightarrow> string list" where
  "py_split sep [] = [[]]"
| "py_split sep (c # cs) =
     (if c = sep then [] # py_split sep cs
      else (case py_split sep cs of
              [] \<Rightarrow> [[c]]
            | w # ws \<Rightarrow> (c # w) # ws))"

text \<open>\<^verbatim>\<open>sep.join(xs)\<close>\<close>

fun py_join :: "string \<Rightarrow> string list \<Rightarrow> string" where
  "py_join sep [] = []"
| "py_join sep [x] = x"
| "py_join sep (x # y # ys) = x @ sep @ py_join sep (y # ys)"

text \<open>\<^verbatim>\<open>s.startswith(p)\<close>\<close>

definition py_startswith :: "string \<Rightarrow> string \<Rightarrow> bool" where
  "py_startswith s p = (take (length p) s = p)"

text \<open>The slice \<^verbatim>\<open>s[i:-j]\<close> for \<open>j > 0\<close>: it is empty when the string is too short.\<close>

definition py_slice_neg :: "nat \<Rightarrow> nat \<Rightarrow> string \<Rightarrow> string" where
  "py_slice_neg i j s = drop i (take (length s - j) s)"

text \<open>\<^verbatim>\<open>s.rfind(c)\<close>, with \<open>None\<close> for Python's \<open>-1\<close>.\<close>

definition py_rfind :: "char \<Rightarrow> string \<Rightarrow> nat option" where
  "py_rfind c s =
     (case dropWhile (\<lambda>x. x \<noteq> c) (rev s) of
        [] \<Rightarrow> None
      | _ # r \<Rightarrow> Some (length r))"

text \<open>Truth value of an \<^verbatim>\<open>Optional[str]\<close>: \<^verbatim>\<open>None\<close> and \<^verbatim>\<open>''\<close> are false.\<close>

definition py_truthy :: "string option \<Rightarrow> bool" where
  "py_truthy v = (case v of None \<Rightarrow> False | Some s \<Rightarrow> s \<noteq> [])"

text \<open>An \<^verbatim>\<open>Optional[str]\<close> inside an f-string: \<^verbatim>\<open>f"{None}"\<close> is \<^verbatim>\<open>"None"\<close>.\<close>

definition py_format :: "string option \<Rightarrow> string" where
  "py_format v = (case v of None \<Rightarrow> ''None'' | Some s \<Rightarrow> s)"

text \<open>
  \<^verbatim>\<open>Path(p).suffix\<close> (POSIX flavour): the path is split at \<open>/\<close>, empty and \<open>.\<close> components
  are dropped, the name is the last component, and the suffix starts at the last dot of
  the name unless that dot is the first or the last character.
\<close>

definition path_name :: "string \<Rightarrow> string" where
  "path_name p =
     (case filter (\<lambda>c. c \<noteq> [] \<and> c \<noteq> ''.'') (py_split CHR ''/'' p) of
        [] \<Rightarrow> []
      | c # cs \<Rightarrow> last (c # cs))"

definition path_suffix :: "string \<Rightarrow> string" where
  "path_suffix p =
     (let name = path_name p
      in case py_rfind CHR ''.'' name of
           None \<Rightarrow> []
         | Some i \<Rightarrow> if 0 < i \<and> i < length name - 1 then drop i name else [])"

text \<open>\<^verbatim>\<open>os.path.basename(p)\<close> (POSIX flavour): everything after the last slash.\<close>

definition os_path_basename :: "string \<Rightarrow> string" where
  "os_path_basename p =
     (case py_rfind CHR ''/'' p of None \<Rightarrow> p | Some i \<Rightarrow> drop (Suc i) p)"

section \<open>Environment Loader: \<^verbatim>\<open>WallpaperPublisher.load_environment\<close>\<close>

text \<open>
  \<^verbatim>\<open>os.environ\<close> after \<^verbatim>\<open>load_dotenv\<close> has read \<^verbatim>\<open>.env.local\<close>: \<^verbatim>\<open>os.getenv(k)\<close> is \<open>env k\<close>.
\<close>

type_synonym environ = "string \<Rightarrow> string option"

datatype dialog = ShowError string string | ShowInfo string string

definition required_vars :: "string list" where
  "required_vars =
     [''NEXT_PUBLIC_SUPABASE_URL'',
      ''NEXT_PUBLIC_SUPABASE_ANON_KEY'',
      ''R2_ACCOUNT_ID'',
      ''R2_ACCESS_KEY_ID'',
      ''R2_SECRET_ACCESS_KEY'',
      ''R2_BUCKET_NAME'']"

definition missing_vars :: "environ \<Rightarrow> string list" where
  "missing_vars env = filter (\<lambda>var. \<not> py_truthy (env var)) required_vars"

text \<open>
  The result \<open>Inl d\<close> is: the message box \<open>d\<close> is shown and the process exits with status
  1. The result \<open>Inr k\<close> is: start-up goes on, with \<^verbatim>\<open>self.gemini_api_key = k\<close>.
\<close>

definition load_environment :: "bool \<Rightarrow> environ \<Rightarrow> dialog + string" where
  "load_environment env_path_exists env =
     (if \<not> env_path_exists then Inl (ShowError ''Error'' ''.env.local file not found!'')
      else if missing_vars env \<noteq> []
        then Inl (ShowError ''Error''
                    (''Missing environment variables: '' @ py_join '', '' (missing_vars env)))
      else Inr (py_strip_chars [CHR 0x22]
                  (case env ''GEMINI_API_KEY'' of None \<Rightarrow> [] | Some v \<Rightarrow> v)))"


section \<open>The form: state of a \<^verbatim>\<open>WallpaperPublisher\<close> object\<close>

text \<open>
  Values produced by \<^verbatim>\<open>json.loads\<close>. An object is the list of its items in insertion
  order (a Python \<^verbatim>\<open>dict\<close>); a number is kept as its literal.
\<close>

datatype json =
    JNull
  | JBool bool
  | JNum string
  | JStr string
  | JArr "json list"
  | JObj "(string \<times> json) list"

text \<open>\<^verbatim>\<open>d.get(k, default)\<close>\<close>

definition dict_get :: "(string \<times> json) list \<Rightarrow> string \<Rightarrow> json \<Rightarrow> json" where
  "dict_get d k dflt = (case map_of d k of None \<Rightarrow> dflt | Some v \<Rightarrow> v)"

datatype btn_state = NORMAL | DISABLED

datatype photo = PhotoImage string

datatype service = SupabaseClient | R2Client

text \<open>
  The attributes of the object and the contents of its widgets. A label is its text and
  its colour, the preview label its image and its text. \<open>description_text\<close> is the text
  of the \<^verbatim>\<open>ScrolledText\<close> widget without the final newline that a Tk text widget always
  holds. \<open>dialogs\<close> lists the message boxes shown so far, oldest first.
\<close>

record app =
  gemini_api_key :: string
  supabase_client :: "service option"
  r2_client :: "service option"
  selected_image_path :: "string option"
  preview_image :: "photo option"
  generated_metadata :: json
  image_path_label :: "string \<times> string"
  preview_label :: "photo option \<times> string"
  generate_btn :: btn_state
  gemini_key_entry :: string
  title_entry :: string
  category_var :: string
  tags_entry :: string
  description_text :: string
  progress_bar :: bool
  status_label :: "string \<times> string"
  publish_btn :: btn_state
  dialogs :: "dialog list"

definition messagebox :: "dialog \<Rightarrow> app \<Rightarrow> app" where
  "messagebox d a = a\<lparr>dialogs := dialogs a @ [d]\<rparr>"

definition update_status :: "string \<Rightarrow> string \<Rightarrow> app \<Rightarrow> app" where
  "update_status message color a = a\<lparr>status_label := (message, color)\<rparr>"

text \<open>\<^verbatim>\<open>setup_ui\<close>, together with the attribute initialisation of \<^verbatim>\<open>__init__\<close>.\<close>

definition setup_ui :: "string \<Rightarrow> app" where
  "setup_ui key =
     \<lparr>gemini_api_key = key,
      supabase_client = None,
      r2_client = None,
      selected_image_path = None,
      preview_image = None,
      generated_metadata = JObj [],
      image_path_label = (''No image selected'', ''gray''),
      preview_label = (None, ''No image selected''),
      generate_btn = DISABLED,
      gemini_key_entry = (if key \<noteq> [] then key else []),
      title_entry = [],
      category_var = [],
      tags_entry = [],
      description_text = [],
      progress_bar = False,
      status_label = (''Ready'', ''green''),
      publish_btn = DISABLED,
      dialogs = []\<rparr>"

text \<open>
  \<^verbatim>\<open>initialize_services\<close>. Whether \<^verbatim>\<open>create_client\<close> and \<^verbatim>\<open>boto3.client\<close> raise is an input:
  \<open>Some e\<close> is an exception with text \<open>e\<close>.
\<close>

record services_io =
  create_client :: "string option"
  boto3_client :: "string option"

definition initialize_services :: "services_io \<Rightarrow> app \<Rightarrow> app" where
  "initialize_services io a =
     (let failed = (\<lambda>e b.
            messagebox (ShowError ''Initialization Error'' (''Failed to initialize services: '' @ e))
              (update_status (''Failed to initialize services: '' @ e) ''red'' b))
      in case create_client io of
           Some e \<Rightarrow> failed e a
         | None \<Rightarrow>
             (let a1 = a\<lparr>supabase_client := Some SupabaseClient\<rparr>
              in case boto3_client io of
                   Some e \<Rightarrow> failed e a1
                 | None \<Rightarrow>
                     update_status ''Services initialized successfully'' ''green''
                       (a1\<lparr>r2_client := Some R2Client\<rparr>)))"

definition on_api_key_change :: "app \<Rightarrow> app" where
  "on_api_key_change a =
     (let api_key = py_strip (gemini_key_entry a)
      in if api_key \<noteq> [] \<and> py_truthy (selected_image_path a)
         then a\<lparr>generate_btn := NORMAL\<rparr>
         else a\<lparr>generate_btn := DISABLED\<rparr>)"

definition check_ready_state :: "app \<Rightarrow> app" where
  "check_ready_state a =
     (let api_key = py_strip (gemini_key_entry a);
          a1 = (if api_key \<noteq> [] \<and> py_truthy (selected_image_path a)
                then a\<lparr>generate_btn := NORMAL\<rparr>
                else a\<lparr>generate_btn := DISABLED\<rparr>)
      in if py_truthy (selected_image_path a1)
            \<and> py_strip (title_entry a1) \<noteq> []
            \<and> py_strip (category_var a1) \<noteq> []
         then a1\<lparr>publish_btn := NORMAL\<rparr>
         else a1\<lparr>publish_btn := DISABLED\<rparr>)"

text \<open>\<^verbatim>\<open>__init__\<close>: \<open>Inl d\<close> when start-up is aborted after the message box \<open>d\<close>.\<close>

definition init :: "bool \<Rightarrow> environ \<Rightarrow> services_io \<Rightarrow> dialog + app" where
  "init env_path_exists env io =
     (case load_environment env_path_exists env of
        Inl d \<Rightarrow> Inl d
      | Inr key \<Rightarrow> Inr (check_ready_state (initialize_services io (setup_ui key))))"

text \<open>
  \<^verbatim>\<open>show_preview\<close>: \<open>decode\<close> is what opening the file as an image does, \<open>Some e\<close> for an
  exception with text \<open>e\<close>.
\<close>

definition show_preview :: "string option \<Rightarrow> app \<Rightarrow> app" where
  "show_preview decode a =
     (case selected_image_path a of
        None \<Rightarrow> a
      | Some path \<Rightarrow>
          if path = [] then a
          else (case decode of
                  None \<Rightarrow>
                    a\<lparr>preview_image := Some (PhotoImage path),
                      preview_label := (Some (PhotoImage path), [])\<rparr>
                | Some e \<Rightarrow>
                    messagebox (ShowError ''Preview Error'' (''Could not preview image: '' @ e))
                      (a\<lparr>preview_label := (None, ''Preview error: '' @ e)\<rparr>)))"

text \<open>\<^verbatim>\<open>select_image\<close>: \<open>file_path\<close> is what the file dialog returns, empty when cancelled.\<close>

definition select_image :: "string \<Rightarrow> string option \<Rightarrow> app \<Rightarrow> app" where
  "select_image file_path decode a =
     (if file_path \<noteq> []
      then check_ready_state (show_preview decode
             (a\<lparr>selected_image_path := Some file_path,
                image_path_label := (os_path_basename file_path, ''black'')\<rparr>))
      else a)"

definition clear_all :: "app \<Rightarrow> app" where
  "clear_all a =
     check_ready_state (update_status ''Ready'' ''green''
       (a\<lparr>selected_image_path := None,
          preview_image := None,
          generated_metadata := JObj [],
          image_path_label := (''No image selected'', ''gray''),
          preview_label := (None, ''No image selected''),
          title_entry := [],
          category_var := [],
          tags_entry := [],
          description_text := []\<rparr>))"

section \<open>AI metadata generation\<close>

text \<open>
  The response handling of \<^verbatim>\<open>_generate_metadata_thread\<close>. \<^verbatim>\<open>json.loads\<close> is a parameter:
  \<open>Inl e\<close> is an exception with text \<open>e\<close>.
\<close>

definition parse_response :: "(string \<Rightarrow> string + json) \<Rightarrow> string \<Rightarrow> string + json" where
  "parse_response json_loads text =
     (let response_text = py_strip text;
          response_text =
            (if py_startswith response_text ''```json'' then py_slice_neg 7 3 response_text
             else if py_startswith response_text ''```'' then py_slice_neg 3 3 response_text
             else response_text)
      in json_loads response_text)"

text \<open>
  The functions handed to \<^verbatim>\<open>root.after(0, ...)\<close>; the main loop runs them in the order in
  which they were handed over.
\<close>

datatype ui_callback =
    ProgressStart
  | ProgressStop
  | UpdateStatus string string
  | UpdateMetadataUI json
  | HandleAIError string
  | PublishSuccess string
  | PublishError string

text \<open>
  What the thread gets from outside, in the order in which it asks: \<open>configure\<close> is
  \<open>Some e\<close> when \<^verbatim>\<open>genai.configure\<close> or \<^verbatim>\<open>genai.GenerativeModel\<close> raises, \<open>image_open\<close> is
  \<open>Some e\<close> when \<^verbatim>\<open>Image.open\<close> raises, \<open>generate_content\<close> is \<open>Inl e\<close> when calling the model
  or reading \<^verbatim>\<open>response.text\<close> raises, and \<open>Inr t\<close> when \<^verbatim>\<open>response.text\<close> is \<open>t\<close>.
\<close>

record generate_io =
  configure :: "string option"
  image_open :: "string option"
  generate_content :: "string + string"

definition generate_metadata_thread ::
    "(string \<Rightarrow> string + json) \<Rightarrow> generate_io \<Rightarrow> ui_callback list" where
  "generate_metadata_thread json_loads io =
     (let tried =
            (case configure io of
               Some e \<Rightarrow> Inl e
             | None \<Rightarrow>
                 (case image_open io of
                    Some e \<Rightarrow> Inl e
                  | None \<Rightarrow>
                      (case generate_content io of
                         Inl e \<Rightarrow> Inl e
                       | Inr text \<Rightarrow> parse_response json_loads text)))
      in [ProgressStart, UpdateStatus ''Generating metadata with AI...'' ''blue'']
         @ (case tried of
              Inl e \<Rightarrow> [HandleAIError e]
            | Inr metadata \<Rightarrow> [UpdateMetadataUI metadata])
         @ [ProgressStop])"

text \<open>
  Tkinter takes a \<^verbatim>\<open>str\<close> argument as it is. What it does with an argument of another
  type (the text it stores, or the exception it raises) is a parameter, one case for
  each of the three calls that \<^verbatim>\<open>_update_metadata_ui\<close> makes.
\<close>

datatype tk_op = EntryInsert | StringVarSet | TextInsert

type_synonym tk_coerce = "tk_op \<Rightarrow> json \<Rightarrow> string + string"

definition tk_arg :: "tk_coerce \<Rightarrow> tk_op \<Rightarrow> json \<Rightarrow> string + string" where
  "tk_arg tk op v = (case v of JStr s \<Rightarrow> Inr s | _ \<Rightarrow> tk op v)"

fun is_JStr :: "json \<Rightarrow> bool" where
  "is_JStr (JStr s) = True"
| "is_JStr v = False"

fun str_of :: "json \<Rightarrow> string" where
  "str_of (JStr s) = s"
| "str_of v = []"

text \<open>
  \<^verbatim>\<open>sep.join(v)\<close> for a JSON value: a list of strings is joined, a string is joined
  character by character, a dict by its keys; anything else raises \<^verbatim>\<open>TypeError\<close>. The
  text of an exception that the interpreter itself raises is shortened to its class.
\<close>

definition py_join_iterable :: "string \<Rightarrow> json \<Rightarrow> string + string" where
  "py_join_iterable sep v =
     (case v of
        JArr xs \<Rightarrow>
          if list_all is_JStr xs then Inr (py_join sep (map str_of xs)) else Inl ''TypeError''
      | JStr s \<Rightarrow> Inr (py_join sep (map (\<lambda>c. [c]) s))
      | JObj d \<Rightarrow> Inr (py_join sep (map fst d))
      | _ \<Rightarrow> Inl ''TypeError'')"

text \<open>
  \<^verbatim>\<open>_update_metadata_ui\<close>. The body is one \<^verbatim>\<open>try\<close> block: an exception leaves the widgets
  as the statements before it set them, and only the status line reports it.
\<close>

definition update_metadata_ui :: "tk_coerce \<Rightarrow> json \<Rightarrow> app \<Rightarrow> app" where
  "update_metadata_ui tk metadata a =
     (let failed = (\<lambda>e b. update_status (''Error updating metadata: '' @ e) ''red'' b);
          a1 = a\<lparr>title_entry := []\<rparr>
      in case metadata of
           JObj d \<Rightarrow>
             (case tk_arg tk EntryInsert (dict_get d ''title'' (JStr [])) of
                Inl e \<Rightarrow> failed e a1
              | Inr t \<Rightarrow>
                  (let a2 = a1\<lparr>title_entry := t\<rparr>
                   in case tk_arg tk StringVarSet (dict_get d ''category'' (JStr [])) of
                        Inl e \<Rightarrow> failed e a2
                      | Inr c \<Rightarrow>
                          (let a3 = a2\<lparr>category_var := c, tags_entry := []\<rparr>
                           in case py_join_iterable '', '' (dict_get d ''tags'' (JArr [])) of
                                Inl e \<Rightarrow> failed e a3
                              | Inr j \<Rightarrow>
                                  (let a4 = a3\<lparr>tags_entry := j, description_text := []\<rparr>
                                   in case tk_arg tk TextInsert
                                             (dict_get d ''description'' (JStr [])) of
                                        Inl e \<Rightarrow> failed e a4
                                      | Inr txt \<Rightarrow>
                                          check_ready_state
                                            (update_status ''Metadata generated successfully!''
                                               ''green''
                                               (a4\<lparr>description_text := txt,
                                                   generated_metadata := metadata\<rparr>))))))
         | _ \<Rightarrow> failed ''AttributeError'' a1)"

definition handle_ai_error :: "string \<Rightarrow> app \<Rightarrow> app" where
  "handle_ai_error error_message a =
     messagebox (ShowError ''AI Error'' (''Failed to generate metadata: '' @ error_message))
       (update_status (''AI generation failed: '' @ error_message) ''red'' a)"

section \<open>Publishing\<close>

definition validate_form :: "app \<Rightarrow> bool \<times> app" where
  "validate_form a =
     (if \<not> py_truthy (selected_image_path a)
        then (False, messagebox (ShowError ''Error'' ''Please select an image'') a)
      else if py_strip (title_entry a) = []
        then (False, messagebox (ShowError ''Error'' ''Please enter a title'') a)
      else if py_strip (category_var a) = []
        then (False, messagebox (ShowError ''Error'' ''Please select a category'') a)
      else (True, a))"

text \<open>The row handed to the database, and the calls made to the two services.\<close>

record wallpaper_data =
  title :: string
  description :: string
  category :: string
  tags :: "string list"
  image_url :: string

text \<open>
  \<open>UploadFileobj path bucket key content_type\<close> is the call of \<^verbatim>\<open>r2_client.upload_fileobj\<close>
  on the opened file \<open>path\<close>; \<open>InsertWallpapers row\<close> is
  \<^verbatim>\<open>supabase_client.table('wallpapers').insert(row).execute()\<close>. The program calls no other
  operation of either service.
\<close>

datatype call =
    UploadFileobj string "string option" string string
  | InsertWallpapers wallpaper_data

text \<open>
  What the thread gets from outside: the identifier that \<^verbatim>\<open>uuid.uuid4()\<close> returns, as
  text; \<open>open_rb\<close> and \<open>upload_fileobj\<close> are \<open>Some e\<close> when opening the file or the upload
  raises an exception with text \<open>e\<close>; \<open>insert_execute\<close> is \<open>Inl e\<close> when the insert raises
  and \<open>Inr rows\<close> when it returns with \<^verbatim>\<open>result.data == rows\<close>.
\<close>

record publish_io =
  uuid4 :: string
  open_rb :: "string option"
  upload_fileobj :: "string option"
  insert_execute :: "string + json list"

text \<open>The list comprehension that turns the tags field into the list of tags.\<close>

definition entry_tags :: "string \<Rightarrow> string list" where
  "entry_tags entry =
     map py_strip (filter (\<lambda>tag. py_strip tag \<noteq> []) (py_split CHR '','' entry))"

text \<open>\<^verbatim>\<open>description_text.get(1.0, tk.END)\<close>: the text and the widget's final newline.\<close>

definition text_get_all :: "string \<Rightarrow> string" where
  "text_get_all content = content @ [CHR 0x0A]"

definition prepare_wallpaper_data :: "app \<Rightarrow> string \<Rightarrow> wallpaper_data" where
  "prepare_wallpaper_data a public_url =
     \<lparr>title = py_strip (title_entry a),
      description = py_strip (text_get_all (description_text a)),
      category = py_strip (category_var a),
      tags = entry_tags (tags_entry a),
      image_url = public_url\<rparr>"

text \<open>
  The \<^verbatim>\<open>try\<close> block of \<^verbatim>\<open>_publish_wallpaper_thread\<close>: the calls made to the services, the
  callbacks handed to the main loop, and the text of the exception that ended the
  block, if one did. A client that \<^verbatim>\<open>initialize_services\<close> left at \<^verbatim>\<open>None\<close> raises
  \<^verbatim>\<open>AttributeError\<close> where it is used, before any call is made.
\<close>

definition publish_try :: "environ \<Rightarrow> publish_io \<Rightarrow> app \<Rightarrow> call list \<times> ui_callback list \<times> string option" where
  "publish_try env io a =
     (let cb0 = [ProgressStart, UpdateStatus ''Uploading to R2...'' ''blue'']
      in case selected_image_path a of
           None \<Rightarrow> ([], cb0, Some ''TypeError'')
         | Some path \<Rightarrow>
             (let file_extension = path_suffix path;
                  unique_filename = uuid4 io @ file_extension;
                  bucket_name = env ''R2_BUCKET_NAME''
              in case open_rb io of
                   Some e \<Rightarrow> ([], cb0, Some e)
                 | None \<Rightarrow>
                     (case r2_client a of
                        None \<Rightarrow> ([], cb0, Some ''AttributeError'')
                      | Some r2 \<Rightarrow>
                          (let upload = UploadFileobj path bucket_name unique_filename
                                          (''image/'' @ drop 1 file_extension)
                           in case upload_fileobj io of
                                Some e \<Rightarrow> ([upload], cb0, Some e)
                              | None \<Rightarrow>
                                  (let public_url =
                                         py_format (env ''R2_PUBLIC_URL'') @ ''/'' @ unique_filename;
                                       cb1 = cb0 @ [UpdateStatus ''Saving to database...'' ''blue''];
                                       row = prepare_wallpaper_data a public_url
                                   in case supabase_client a of
                                        None \<Rightarrow> ([upload], cb1, Some ''AttributeError'')
                                      | Some db \<Rightarrow>
                                          (case insert_execute io of
                                             Inl e \<Rightarrow>
                                               ([upload, InsertWallpapers row], cb1, Some e)
                                           | Inr rows \<Rightarrow>
                                               if rows \<noteq> []
                                               then ([upload, InsertWallpapers row],
                                                     cb1 @ [PublishSuccess public_url], None)
                                               else ([upload, InsertWallpapers row], cb1,
                                                     Some ''Failed to insert into database'')))))))"

text \<open>
  \<^verbatim>\<open>_publish_wallpaper_thread\<close>: the \<^verbatim>\<open>except\<close> clause hands over the error callback, the
  \<^verbatim>\<open>finally\<close> clause the one that stops the progress bar.
\<close>

definition publish_wallpaper_thread :: "environ \<Rightarrow> publish_io \<Rightarrow> app \<Rightarrow> call list \<times> ui_callback list" where
  "publish_wallpaper_thread env io a =
     (case publish_try env io a of
        (calls, cbs, exc) \<Rightarrow>
          (calls,
           cbs @ (case exc of None \<Rightarrow> [] | Some e \<Rightarrow> [PublishError e]) @ [ProgressStop]))"

definition publish_success :: "string \<Rightarrow> app \<Rightarrow> app" where
  "publish_success public_url a =
     clear_all
       (messagebox
          (ShowInfo ''Success''
             (''Wallpaper published successfully!'' @ [CHR 0x0A] @ ''URL: '' @ public_url))
          (update_status ''Wallpaper published successfully!'' ''green'' a))"

definition publish_error :: "string \<Rightarrow> app \<Rightarrow> app" where
  "publish_error error_message a =
     messagebox (ShowError ''Publishing Error'' (''Failed to publish wallpaper: '' @ error_message))
       (update_status (''Publishing failed: '' @ error_message) ''red'' a)"

section \<open>Running the callbacks on the main loop\<close>

text \<open>
  The two error callbacks are \<^verbatim>\<open>lambda: self._publish_error(str(e))\<close> and
  \<^verbatim>\<open>lambda: self._handle_ai_error(str(e))\<close>, built inside \<^verbatim>\<open>except Exception as e\<close>. They
  read \<open>e\<close> when the main loop runs them, and Python unbinds \<open>e\<close> when the thread leaves
  the \<^verbatim>\<open>except\<close> clause. \<open>e_bound\<close> says whether the callback runs while \<open>e\<close> is still
  bound. If it is not, \<^verbatim>\<open>str(e)\<close> raises \<^verbatim>\<open>NameError\<close> inside the callback, the handler is
  not called, Tkinter prints the traceback to the standard error stream, and the form
  stays as it is. All other callbacks read only \<open>self\<close> and variables that stay bound.
\<close>

definition run_callback :: "bool \<Rightarrow> tk_coerce \<Rightarrow> ui_callback \<Rightarrow> app \<Rightarrow> app" where
  "run_callback e_bound tk cb a =
     (case cb of
        ProgressStart \<Rightarrow> a\<lparr>progress_bar := True\<rparr>
      | ProgressStop \<Rightarrow> a\<lparr>progress_bar := False\<rparr>
      | UpdateStatus message color \<Rightarrow> update_status message color a
      | UpdateMetadataUI metadata \<Rightarrow> update_metadata_ui tk metadata a
      | HandleAIError e \<Rightarrow> if e_bound then handle_ai_error e a else a
      | PublishSuccess public_url \<Rightarrow> publish_success public_url a
      | PublishError e \<Rightarrow> if e_bound then publish_error e a else a)"

definition run_callbacks :: "bool \<Rightarrow> tk_coerce \<Rightarrow> ui_callback list \<Rightarrow> app \<Rightarrow> app" where
  "run_callbacks e_bound tk cbs a = fold (run_callback e_bound tk) cbs a"

text \<open>
  \<^verbatim>\<open>generate_metadata\<close> and \<^verbatim>\<open>publish_wallpaper\<close>, each with its thread run to the end and
  its callbacks run after it, nothing else touching the form in between.
\<close>

definition generate_metadata ::
    "bool \<Rightarrow> tk_coerce \<Rightarrow> (string \<Rightarrow> string + json) \<Rightarrow> generate_io \<Rightarrow> app \<Rightarrow> app" where
  "generate_metadata e_bound tk json_loads io a =
     (if \<not> py_truthy (selected_image_path a)
        then messagebox (ShowError ''Error'' ''Please select an image first'') a
      else if py_strip (gemini_key_entry a) = []
        then messagebox (ShowError ''Error'' ''Please enter your Gemini API key'') a
      else run_callbacks e_bound tk (generate_metadata_thread json_loads io) a)"

definition publish_wallpaper ::
    "bool \<Rightarrow> tk_coerce \<Rightarrow> environ \<Rightarrow> publish_io \<Rightarrow> app \<Rightarrow> call list \<times> app" where
  "publish_wallpaper e_bound tk env io a =
     (case validate_form a of
        (False, a1) \<Rightarrow> ([], a1)
      | (True, a1) \<Rightarrow>
          (case publish_wallpaper_thread env io a1 of
             (calls, cbs) \<Rightarrow> (calls, run_callbacks e_bound tk cbs a1)))"

section \<open>Facts about the text primitives\<close>

lemma py_strip_Nil: "py_strip [] = []"
  by (simp add: py_strip_def py_rstrip_def py_lstrip_def)

lemma dropWhile_all_prefix: "list_all P w \<Longrightarrow> dropWhile P (w @ s) = dropWhile P s"
  by (induction w) auto

lemma py_lstrip_all_space: "list_all py_isspace w \<Longrightarrow> py_lstrip (w @ s) = py_lstrip s"
  by (simp add: py_lstrip_def dropWhile_all_prefix)

lemma py_rstrip_all_space: "list_all py_isspace w \<Longrightarrow> py_rstrip (s @ w) = py_rstrip s"
  by (simp add: py_rstrip_def dropWhile_all_prefix)

lemma py_lstrip_nonspace: "\<not> py_isspace c \<Longrightarrow> py_lstrip (c # s) = c # s"
  by (simp add: py_lstrip_def)

lemma py_rstrip_nonspace: "\<not> py_isspace c \<Longrightarrow> py_rstrip (s @ [c]) = s @ [c]"
  by (simp add: py_rstrip_def)

lemma py_strip_padded:
  assumes "list_all py_isspace w1" "list_all py_isspace w2"
    and "\<not> py_isspace c" "\<not> py_isspace d"
  shows "py_strip (w1 @ c # s @ d # w2) = c # s @ [d]"
proof -
  have "py_lstrip (w1 @ c # s @ d # w2) = c # s @ d # w2"
    using assms(1,3) by (simp add: py_lstrip_all_space py_lstrip_nonspace)
  moreover have "py_rstrip (c # s @ d # w2) = py_rstrip ((c # s @ [d]) @ w2)" by simp
  moreover have "py_rstrip ((c # s @ [d]) @ w2) = py_rstrip ((c # s) @ [d])"
    using assms(2) py_rstrip_all_space[of w2 "c # s @ [d]"] by simp
  moreover have "py_rstrip ((c # s) @ [d]) = (c # s) @ [d]"
    using assms(4) by (rule py_rstrip_nonspace)
  ultimately show ?thesis by (simp add: py_strip_def)
qed

lemma py_rstrip_prefix: "\<exists>r. s = py_rstrip s @ r"
proof -
  have "rev s = takeWhile py_isspace (rev s) @ dropWhile py_isspace (rev s)" by simp
  then have "s = rev (dropWhile py_isspace (rev s)) @ rev (takeWhile py_isspace (rev s))"
    by (metis rev_append rev_rev_ident)
  then show ?thesis unfolding py_rstrip_def by blast
qed

lemma py_strip_hd:
  assumes "py_strip s = c # r"
  shows "\<exists>w t. s = w @ c # t \<and> list_all py_isspace w"
proof -
  obtain x where x: "py_lstrip s = py_rstrip (py_lstrip s) @ x"
    using py_rstrip_prefix by blast
  have "s = takeWhile py_isspace s @ py_lstrip s" by (simp add: py_lstrip_def)
  then have "s = takeWhile py_isspace s @ c # (r @ x)"
    using x assms by (simp add: py_strip_def)
  moreover have "list_all py_isspace (takeWhile py_isspace s)"
    by (simp add: list_all_iff) (meson set_takeWhileD)
  ultimately show ?thesis by blast
qed

lemma dropWhile_Nil_all: "(dropWhile P s = []) = list_all P s"
  by (induction s) auto

lemma dropWhile_all_Nil: "list_all P (dropWhile P s) \<Longrightarrow> dropWhile P s = []"
  by (induction s) (auto split: if_splits)

lemma py_strip_eq_Nil: "(py_strip s = []) = list_all py_isspace s"
proof
  assume "py_strip s = []"
  then have "list_all py_isspace (rev (py_lstrip s))"
    by (simp add: py_strip_def py_rstrip_def dropWhile_Nil_all list_all_iff)
  then have "list_all py_isspace (dropWhile py_isspace s)"
    by (simp add: py_lstrip_def list_all_iff)
  then have "dropWhile py_isspace s = []" by (rule dropWhile_all_Nil)
  then show "list_all py_isspace s" by (simp add: list_all_iff)
next
  assume "list_all py_isspace s"
  then have "py_lstrip s = []" unfolding py_lstrip_def dropWhile_Nil_all .
  then show "py_strip s = []" by (simp add: py_strip_def py_rstrip_def)
qed

lemma py_lstrip_hd: "py_lstrip s = c # r \<Longrightarrow> \<not> py_isspace c"
  unfolding py_lstrip_def by (metis hd_dropWhile list.sel(1) list.distinct(1))

lemma py_rstrip_last: "py_rstrip s \<noteq> [] \<Longrightarrow> \<not> py_isspace (last (py_rstrip s))"
  unfolding py_rstrip_def by (metis hd_dropWhile last_rev rev_is_Nil_conv)

lemma py_rstrip_hd: "py_rstrip s = c # r \<Longrightarrow> \<exists>t. s = c # t"
  using py_rstrip_prefix[of s] by (metis append_Cons)

lemma py_strip_shape:
  assumes "py_strip s \<noteq> []"
  shows "\<not> py_isspace (hd (py_strip s)) \<and> \<not> py_isspace (last (py_strip s))"
proof -
  obtain c r where cr: "py_strip s = c # r" using assms by (cases "py_strip s") auto
  then obtain t where "py_lstrip s = c # t" unfolding py_strip_def using py_rstrip_hd by blast
  then have "\<not> py_isspace c" by (rule py_lstrip_hd)
  moreover have "\<not> py_isspace (last (py_strip s))"
    using assms unfolding py_strip_def by (rule py_rstrip_last)
  ultimately show ?thesis using cr by simp
qed

lemma py_strip_fixed:
  assumes "s \<noteq> []" "\<not> py_isspace (hd s)" "\<not> py_isspace (last s)"
  shows "py_strip s = s"
proof -
  obtain c r where "s = c # r" using assms(1) by (cases s) auto
  then have l: "py_lstrip s = s" using assms(2) by (simp add: py_lstrip_def)
  obtain b d where "s = b @ [d]" using assms(1) by (metis rev_exhaust)
  then have "py_rstrip s = s" using assms(3) by (simp add: py_rstrip_def)
  with l show ?thesis by (simp add: py_strip_def)
qed

lemma py_strip_idem: "py_strip (py_strip s) = py_strip s"
proof (cases "py_strip s = []")
  case True
  then show ?thesis by (simp add: py_strip_Nil)
next
  case False
  then show ?thesis using py_strip_shape[OF False] by (intro py_strip_fixed) auto
qed

section \<open>Fenced AI responses\<close>

lemma backtick_not_space: "\<not> py_isspace CHR ''`''"
  by (simp add: py_isspace_def)

lemma py_strip_fenced:
  assumes "list_all py_isspace w1" "list_all py_isspace w2"
  shows "py_strip (w1 @ CHR ''`'' # s @ CHR ''`'' # w2) = CHR ''`'' # s @ ''`''"
  using assms by (rule py_strip_padded) (rule backtick_not_space)+

lemma starts_with_brace:
  assumes "py_startswith (py_strip J) ''{''"
  shows "\<exists>r. py_strip J = CHR ''{'' # r"
  using assms by (cases "py_strip J") (auto simp: py_startswith_def)

lemma first_char_of_object_text:
  assumes "py_startswith (py_strip J) ''{''"
  shows "\<exists>c t. J = c # t \<and> c \<noteq> CHR ''j''"
proof -
  obtain r where "py_strip J = CHR ''{'' # r" using starts_with_brace[OF assms] by blast
  then obtain w t where J: "J = w @ CHR ''{'' # t" and w: "list_all py_isspace w"
    using py_strip_hd by blast
  show ?thesis
  proof (cases w)
    case Nil
    with J show ?thesis by simp
  next
    case (Cons c w')
    with w have "py_isspace c" by simp
    then have "c \<noteq> CHR ''j''" by (auto simp: py_isspace_def)
    with J Cons show ?thesis by simp
  qed
qed

lemma parse_response_unfenced:
  assumes "py_startswith (py_strip J) ''{''"
  shows "parse_response json_loads J = json_loads (py_strip J)"
proof -
  obtain r where "py_strip J = CHR ''{'' # r" using starts_with_brace[OF assms] by blast
  then show ?thesis by (simp add: parse_response_def py_startswith_def)
qed

lemma parse_response_json_fence:
  assumes "list_all py_isspace w1" "list_all py_isspace w2"
  shows "parse_response json_loads (w1 @ ''```json'' @ J @ ''```'' @ w2) = json_loads J"
proof -
  have "w1 @ ''```json'' @ J @ ''```'' @ w2 = w1 @ CHR ''`'' # (''``json'' @ J @ ''``'') @ CHR ''`'' # w2"
    by simp
  then have "py_strip (w1 @ ''```json'' @ J @ ''```'' @ w2) = ''```json'' @ J @ ''```''"
    using py_strip_fenced[OF assms, of "''``json'' @ J @ ''``''"] by simp
  then show ?thesis
    by (simp add: parse_response_def py_startswith_def py_slice_neg_def)
qed

lemma parse_response_plain_fence:
  assumes "list_all py_isspace w1" "list_all py_isspace w2"
    and "py_startswith (py_strip J) ''{''"
  shows "parse_response json_loads (w1 @ ''```'' @ J @ ''```'' @ w2) = json_loads J"
proof -
  obtain c t where J: "J = c # t" and c: "c \<noteq> CHR ''j''"
    using first_char_of_object_text[OF assms(3)] by blast
  have "w1 @ ''```'' @ J @ ''```'' @ w2 = w1 @ CHR ''`'' # (''``'' @ J @ ''``'') @ CHR ''`'' # w2"
    by simp
  then have s: "py_strip (w1 @ ''```'' @ J @ ''```'' @ w2) = ''```'' @ J @ ''```''"
    using py_strip_fenced[OF assms(1,2), of "''``'' @ J @ ''``''"] by simp
  have "\<not> py_startswith (''```'' @ J @ ''```'') ''```json''"
    using J c by (simp add: py_startswith_def)
  moreover have "py_startswith (''```'' @ J @ ''```'') ''```''"
    by (simp add: py_startswith_def)
  moreover have "py_slice_neg 3 3 (''```'' @ J @ ''```'') = J"
    by (simp add: py_slice_neg_def)
  ultimately show ?thesis using s by (simp add: parse_response_def)
qed


text \<open>
  Claim C3. Let \<open>J\<close> be the text of a JSON object: its first character that is not white
  space is an opening brace, and \<^verbatim>\<open>json.loads\<close> reads \<open>J\<close> as it reads \<open>J\<close> without its
  outer white space (the parser skips white space around a JSON text). Then the response
  \<^verbatim>\<open>```json\<close> \<open>J\<close> \<^verbatim>\<open>```\<close>, with any white space around it, parses to exactly what the
  response \<open>J\<close> parses to, and so does the response fenced with plain \<^verbatim>\<open>```\<close> markers.
  The generation thread therefore hands the same callbacks to the main loop for the
  fenced and for the unfenced response.
\<close>

theorem fenced_response_parses_like_unfenced:
  assumes "list_all py_isspace w1" and "list_all py_isspace w2"
    and "py_startswith (py_strip J) ''{''"
    and "json_loads (py_strip J) = json_loads J"
  shows "parse_response json_loads (w1 @ ''```json'' @ J @ ''```'' @ w2)
           = parse_response json_loads J
       \<and> parse_response json_loads (w1 @ ''```'' @ J @ ''```'' @ w2)
           = parse_response json_loads J
       \<and> generate_metadata_thread json_loads
             (io\<lparr>generate_content := Inr (w1 @ ''```json'' @ J @ ''```'' @ w2)\<rparr>)
           = generate_metadata_thread json_loads (io\<lparr>generate_content := Inr J\<rparr>)
       \<and> generate_metadata_thread json_loads
             (io\<lparr>generate_content := Inr (w1 @ ''```'' @ J @ ''```'' @ w2)\<rparr>)
           = generate_metadata_thread json_loads (io\<lparr>generate_content := Inr J\<rparr>)"
proof -
  have fenced: "parse_response json_loads (w1 @ ''```json'' @ J @ ''```'' @ w2) = json_loads J"
    using assms(1,2) by (rule parse_response_json_fence)
  have plain: "parse_response json_loads (w1 @ ''```'' @ J @ ''```'' @ w2) = json_loads J"
    using assms(1,2,3) by (rule parse_response_plain_fence)
  have unfenced: "parse_response json_loads J = json_loads J"
    using parse_response_unfenced[OF assms(3)] assms(4) by simp
  have thread: "generate_metadata_thread json_loads (io\<lparr>generate_content := Inr r\<rparr>) =
      [ProgressStart, UpdateStatus ''Generating metadata with AI...'' ''blue'']
      @ (case (case configure io of
                 Some e \<Rightarrow> Inl e
               | None \<Rightarrow> (case image_open io of
                             Some e \<Rightarrow> Inl e
                           | None \<Rightarrow> parse_response json_loads r)) of
           Inl e \<Rightarrow> [HandleAIError e]
         | Inr metadata \<Rightarrow> [UpdateMetadataUI metadata])
      @ [ProgressStop]" for r
    by (simp add: generate_metadata_thread_def split: option.splits)
  show ?thesis
    unfolding thread fenced plain unfenced by simp
qed


text \<open>
  The hypotheses of C3 hold for the response \<^verbatim>\<open>\n```json\n{}\n``` \<close> and a parser that
  accepts only the empty object.
\<close>

theorem fenced_response_witness:
  "list_all py_isspace [CHR 0x0A] \<and> list_all py_isspace '' ''
   \<and> py_startswith (py_strip [CHR 0x0A, CHR ''{'', CHR ''}'', CHR 0x0A]) ''{''
   \<and> (\<lambda>s. if py_strip s = ''{}'' then Inr (JObj []) else Inl ''JSONDecodeError'')
         (py_strip [CHR 0x0A, CHR ''{'', CHR ''}'', CHR 0x0A])
       = (\<lambda>s. if py_strip s = ''{}'' then Inr (JObj []) else Inl ''JSONDecodeError'')
           [CHR 0x0A, CHR ''{'', CHR ''}'', CHR 0x0A]
   \<and> parse_response (\<lambda>s. if py_strip s = ''{}'' then Inr (JObj []) else Inl ''JSONDecodeError'')
         ([CHR 0x0A] @ ''```json'' @ [CHR 0x0A, CHR ''{'', CHR ''}'', CHR 0x0A] @ ''```'' @ '' '')
       = Inr (JObj [])
   \<and> parse_response (\<lambda>s. if py_strip s = ''{}'' then Inr (JObj []) else Inl ''JSONDecodeError'')
         ([CHR 0x0A] @ ''```'' @ [CHR 0x0A, CHR ''{'', CHR ''}'', CHR 0x0A] @ ''```'' @ '' '')
       = Inr (JObj [])
   \<and> parse_response (\<lambda>s. if py_strip s = ''{}'' then Inr (JObj []) else Inl ''JSONDecodeError'')
         [CHR 0x0A, CHR ''{'', CHR ''}'', CHR 0x0A]
       = Inr (JObj [])"
proof -
  let ?J = "[CHR 0x0A, CHR ''{'', CHR ''}'', CHR 0x0A]"
  let ?loads = "\<lambda>s. if py_strip s = ''{}'' then Inr (JObj []) else Inl ''JSONDecodeError''"
  have s: "py_strip ?J = ''{}''"
    by (simp add: py_strip_def py_rstrip_def py_lstrip_def py_isspace_def)
  have s2: "py_strip ''{}'' = ''{}''"
    by (simp add: py_strip_def py_rstrip_def py_lstrip_def py_isspace_def)
  have h1: "list_all py_isspace [CHR 0x0A]" by (simp add: py_isspace_def)
  have h2: "list_all py_isspace '' ''" by (simp add: py_isspace_def)
  have h3: "py_startswith (py_strip ?J) ''{''" by (simp add: s py_startswith_def)
  have h4: "?loads (py_strip ?J) = ?loads ?J" by (simp add: s s2)
  have u: "parse_response ?loads ?J = Inr (JObj [])"
    by (simp add: parse_response_def s s2 py_startswith_def)
  show ?thesis
    using fenced_response_parses_like_unfenced[OF h1 h2 h3 h4] h1 h2 h3 h4 u by simp
qed

section \<open>Readiness of the two actions, and clearing the form\<close>

lemma check_ready_state_fields:
  "selected_image_path (check_ready_state a) = selected_image_path a"
  "preview_image (check_ready_state a) = preview_image a"
  "generated_metadata (check_ready_state a) = generated_metadata a"
  "image_path_label (check_ready_state a) = image_path_label a"
  "preview_label (check_ready_state a) = preview_label a"
  "gemini_key_entry (check_ready_state a) = gemini_key_entry a"
  "title_entry (check_ready_state a) = title_entry a"
  "category_var (check_ready_state a) = category_var a"
  "tags_entry (check_ready_state a) = tags_entry a"
  "description_text (check_ready_state a) = description_text a"
  "status_label (check_ready_state a) = status_label a"
  "progress_bar (check_ready_state a) = progress_bar a"
  "dialogs (check_ready_state a) = dialogs a"
  "gemini_api_key (check_ready_state a) = gemini_api_key a"
  "supabase_client (check_ready_state a) = supabase_client a"
  "r2_client (check_ready_state a) = r2_client a"
  by (simp_all add: check_ready_state_def Let_def)

lemma check_ready_state_generate_btn:
  "generate_btn (check_ready_state a) =
     (if py_strip (gemini_key_entry a) \<noteq> [] \<and> py_truthy (selected_image_path a)
      then NORMAL else DISABLED)"
  by (simp add: check_ready_state_def Let_def)

lemma check_ready_state_publish_btn:
  "publish_btn (check_ready_state a) =
     (if py_truthy (selected_image_path a) \<and> py_strip (title_entry a) \<noteq> []
         \<and> py_strip (category_var a) \<noteq> []
      then NORMAL else DISABLED)"
  by (simp add: check_ready_state_def Let_def)

lemma py_truthy_iff: "py_truthy v = (\<exists>p. v = Some p \<and> p \<noteq> [])"
  by (cases v) (simp_all add: py_truthy_def)

lemma on_api_key_change_fields:
  "selected_image_path (on_api_key_change a) = selected_image_path a"
  "gemini_key_entry (on_api_key_change a) = gemini_key_entry a"
  by (simp_all add: on_api_key_change_def Let_def)

lemma on_api_key_change_generate_btn:
  "generate_btn (on_api_key_change a) =
     (if py_strip (gemini_key_entry a) \<noteq> [] \<and> py_truthy (selected_image_path a)
      then NORMAL else DISABLED)"
  by (simp add: on_api_key_change_def Let_def)

lemma initialize_services_fields:
  "selected_image_path (initialize_services io a) = selected_image_path a"
  "gemini_key_entry (initialize_services io a) = gemini_key_entry a"
  "title_entry (initialize_services io a) = title_entry a"
  "category_var (initialize_services io a) = category_var a"
  by (simp_all add: initialize_services_def update_status_def messagebox_def Let_def
        split: option.splits)

lemma show_preview_fields:
  "selected_image_path (show_preview decode a) = selected_image_path a"
  "gemini_key_entry (show_preview decode a) = gemini_key_entry a"
  "title_entry (show_preview decode a) = title_entry a"
  "category_var (show_preview decode a) = category_var a"
  by (simp_all add: show_preview_def messagebox_def split: option.splits)

lemma select_image_generate_btn:
  "generate_btn (select_image file_path decode a) =
     (if file_path = [] then generate_btn a
      else if py_strip (gemini_key_entry a) \<noteq> [] then NORMAL else DISABLED)"
  by (simp add: select_image_def check_ready_state_generate_btn show_preview_fields
        py_truthy_def)

text \<open>
  Claim C2. For every state of the form, once \<^verbatim>\<open>check_ready_state\<close> has run the publish
  button is enabled if and only if an image is selected and the title and the category
  are not empty after trimming. The result is the same whatever the description and the
  tags fields hold, and the check changes none of the three values it reads.
\<close>

theorem publish_enabled_iff:
  "(publish_btn (check_ready_state a) = NORMAL)
     = ((\<exists>path. selected_image_path a = Some path \<and> path \<noteq> [])
        \<and> py_strip (title_entry a) \<noteq> []
        \<and> py_strip (category_var a) \<noteq> [])
   \<and> publish_btn (check_ready_state (a\<lparr>description_text := d, tags_entry := t\<rparr>))
     = publish_btn (check_ready_state a)
   \<and> selected_image_path (check_ready_state a) = selected_image_path a
   \<and> title_entry (check_ready_state a) = title_entry a
   \<and> category_var (check_ready_state a) = category_var a"
  by (simp add: check_ready_state_publish_btn check_ready_state_fields py_truthy_iff)

text \<open>
  Claim C8. For every state of the form, after \<^verbatim>\<open>check_ready_state\<close> and after
  \<^verbatim>\<open>on_api_key_change\<close> the AI-generation button is enabled if and only if an image is
  selected and the trimmed API key is not empty; neither changes the key or the
  selection. This holds for a key typed by the user (the key-release handler runs on the
  new contents of the entry) and for a key pre-filled from the configuration (the form
  as \<^verbatim>\<open>__init__\<close> builds it, then an image selection).
\<close>

theorem generate_enabled_iff:
  "(generate_btn (check_ready_state a) = NORMAL)
     = ((\<exists>path. selected_image_path a = Some path \<and> path \<noteq> [])
        \<and> py_strip (gemini_key_entry a) \<noteq> [])
   \<and> (generate_btn (on_api_key_change a) = NORMAL)
     = ((\<exists>path. selected_image_path a = Some path \<and> path \<noteq> [])
        \<and> py_strip (gemini_key_entry a) \<noteq> [])
   \<and> selected_image_path (check_ready_state a) = selected_image_path a
   \<and> gemini_key_entry (check_ready_state a) = gemini_key_entry a
   \<and> selected_image_path (on_api_key_change a) = selected_image_path a
   \<and> gemini_key_entry (on_api_key_change a) = gemini_key_entry a
   \<and> (generate_btn (on_api_key_change (a\<lparr>gemini_key_entry := typed\<rparr>)) = NORMAL)
     = ((\<exists>path. selected_image_path a = Some path \<and> path \<noteq> [])
        \<and> py_strip typed \<noteq> [])
   \<and> (generate_btn (select_image file_path decode
          (check_ready_state (initialize_services io (setup_ui key)))) = NORMAL)
     = (file_path \<noteq> [] \<and> py_strip key \<noteq> [])"
proof -
  have pre: "gemini_key_entry (initialize_services io (setup_ui key)) = key
           \<and> selected_image_path (initialize_services io (setup_ui key)) = None"
    by (simp add: initialize_services_fields setup_ui_def)
  show ?thesis
    by (simp add: check_ready_state_generate_btn check_ready_state_fields
          on_api_key_change_generate_btn on_api_key_change_fields py_truthy_iff
          select_image_generate_btn pre)
qed

text \<open>
  Claim C9. For every state of the form, \<^verbatim>\<open>clear_all\<close> leaves the selected file and the
  preview unset and the title, category, tags and description empty, with both buttons
  disabled. The result is the form as \<^verbatim>\<open>setup_ui\<close> builds it, except for what is not part
  of the submission: the service clients, the API key entry, the progress bar and the
  message boxes already shown.
\<close>

theorem clear_all_resets:
  "selected_image_path (clear_all a) = None
   \<and> preview_image (clear_all a) = None
   \<and> preview_label (clear_all a) = (None, ''No image selected'')
   \<and> image_path_label (clear_all a) = (''No image selected'', ''gray'')
   \<and> title_entry (clear_all a) = []
   \<and> category_var (clear_all a) = []
   \<and> tags_entry (clear_all a) = []
   \<and> description_text (clear_all a) = []
   \<and> generated_metadata (clear_all a) = JObj []
   \<and> generate_btn (clear_all a) = DISABLED
   \<and> publish_btn (clear_all a) = DISABLED
   \<and> status_label (clear_all a) = (''Ready'', ''green'')
   \<and> clear_all a =
       (setup_ui (gemini_api_key a))
         \<lparr>supabase_client := supabase_client a,
          r2_client := r2_client a,
          gemini_key_entry := gemini_key_entry a,
          progress_bar := progress_bar a,
          dialogs := dialogs a\<rparr>"
  by (simp add: clear_all_def check_ready_state_def update_status_def setup_ui_def
        py_truthy_def Let_def)

section \<open>Applying generated metadata\<close>

lemma py_join_iterable_strs:
  "py_join_iterable sep (JArr (map JStr xs)) = Inr (py_join sep xs)"
proof -
  have "list_all is_JStr (map JStr xs)" by (induction xs) auto
  moreover have "map str_of (map JStr xs) = xs" by (induction xs) auto
  ultimately show ?thesis by (simp add: py_join_iterable_def)
qed

lemma update_metadata_ui_strings:
  assumes "dict_get d ''title'' (JStr []) = JStr t"
    and "dict_get d ''category'' (JStr []) = JStr c"
    and "dict_get d ''tags'' (JArr []) = JArr (map JStr ts)"
    and "dict_get d ''description'' (JStr []) = JStr ds"
  shows "update_metadata_ui tk (JObj d) a =
           check_ready_state
             (a\<lparr>title_entry := t, category_var := c, tags_entry := py_join '', '' ts,
                description_text := ds, generated_metadata := JObj d,
                status_label := (''Metadata generated successfully!'', ''green'')\<rparr>)"
  using assms
  by (simp add: update_metadata_ui_def tk_arg_def py_join_iterable_strs update_status_def Let_def)

lemma dict_get_str:
  "map_of d k = map_option JStr v \<Longrightarrow>
     dict_get d k (JStr []) = JStr (case v of None \<Rightarrow> [] | Some s \<Rightarrow> s)"
  by (cases v) (simp_all add: dict_get_def)

lemma dict_get_strs:
  "map_of d k = map_option (\<lambda>xs. JArr (map JStr xs)) v \<Longrightarrow>
     dict_get d k (JArr []) = JArr (map JStr (case v of None \<Rightarrow> [] | Some xs \<Rightarrow> xs))"
  by (cases v) (simp_all add: dict_get_def)

text \<open>
  Claim C4. Let the describe result be a JSON object in which each of \<open>title\<close>,
  \<open>category\<close> and \<open>description\<close> is missing or a string, and \<open>tags\<close> is missing or a list
  of strings. Whatever the form held before, \<^verbatim>\<open>_update_metadata_ui\<close> sets the title,
  category and description fields to exactly the strings of the result and the tags
  field to the tags joined with comma and space; a missing key gives an empty field.
\<close>

theorem update_metadata_ui_overwrites:
  assumes "map_of d ''title'' = map_option JStr t"
    and "map_of d ''category'' = map_option JStr c"
    and "map_of d ''tags'' = map_option (\<lambda>xs. JArr (map JStr xs)) ts"
    and "map_of d ''description'' = map_option JStr ds"
  shows "title_entry (update_metadata_ui tk (JObj d) a) = (case t of None \<Rightarrow> [] | Some s \<Rightarrow> s)
       \<and> category_var (update_metadata_ui tk (JObj d) a) = (case c of None \<Rightarrow> [] | Some s \<Rightarrow> s)
       \<and> tags_entry (update_metadata_ui tk (JObj d) a)
           = (case ts of None \<Rightarrow> [] | Some xs \<Rightarrow> py_join '', '' xs)
       \<and> description_text (update_metadata_ui tk (JObj d) a)
           = (case ds of None \<Rightarrow> [] | Some s \<Rightarrow> s)
       \<and> generated_metadata (update_metadata_ui tk (JObj d) a) = JObj d"
proof -
  note u = update_metadata_ui_strings[OF dict_get_str[OF assms(1)] dict_get_str[OF assms(2)]
             dict_get_strs[OF assms(3)] dict_get_str[OF assms(4)], of tk a]
  have "(case ts of None \<Rightarrow> [] | Some xs \<Rightarrow> py_join '', '' xs)
          = py_join '', '' (case ts of None \<Rightarrow> [] | Some xs \<Rightarrow> xs)"
    by (cases ts) simp_all
  then show ?thesis
    by (simp add: u check_ready_state_fields)
qed

text \<open>
  The describe result of the claim, \<^verbatim>\<open>{"title":"T","description":"D","category":"nature","tags":["a","b"]}\<close>,
  and the result \<^verbatim>\<open>{"title":"T"}\<close>, in which three keys are missing.
\<close>

theorem update_metadata_ui_witness:
  "map_of [(''title'', JStr ''T''), (''description'', JStr ''D''), (''category'', JStr ''nature''),
           (''tags'', JArr [JStr ''a'', JStr ''b''])] ''title'' = map_option JStr (Some ''T'')
   \<and> map_of [(''title'', JStr ''T''), (''description'', JStr ''D''), (''category'', JStr ''nature''),
           (''tags'', JArr [JStr ''a'', JStr ''b''])] ''category'' = map_option JStr (Some ''nature'')
   \<and> map_of [(''title'', JStr ''T''), (''description'', JStr ''D''), (''category'', JStr ''nature''),
           (''tags'', JArr [JStr ''a'', JStr ''b''])] ''tags''
         = map_option (\<lambda>xs. JArr (map JStr xs)) (Some [''a'', ''b''])
   \<and> map_of [(''title'', JStr ''T''), (''description'', JStr ''D''), (''category'', JStr ''nature''),
           (''tags'', JArr [JStr ''a'', JStr ''b''])] ''description'' = map_option JStr (Some ''D'')
   \<and> (\<forall>tk a.
         title_entry (update_metadata_ui tk
             (JObj [(''title'', JStr ''T''), (''description'', JStr ''D''),
                    (''category'', JStr ''nature''), (''tags'', JArr [JStr ''a'', JStr ''b''])]) a) = ''T''
       \<and> category_var (update_metadata_ui tk
             (JObj [(''title'', JStr ''T''), (''description'', JStr ''D''),
                    (''category'', JStr ''nature''), (''tags'', JArr [JStr ''a'', JStr ''b''])]) a) = ''nature''
       \<and> tags_entry (update_metadata_ui tk
             (JObj [(''title'', JStr ''T''), (''description'', JStr ''D''),
                    (''category'', JStr ''nature''), (''tags'', JArr [JStr ''a'', JStr ''b''])]) a) = ''a, b''
       \<and> description_text (update_metadata_ui tk
             (JObj [(''title'', JStr ''T''), (''description'', JStr ''D''),
                    (''category'', JStr ''nature''), (''tags'', JArr [JStr ''a'', JStr ''b''])]) a) = ''D'')
   \<and> (\<forall>tk a.
         title_entry (update_metadata_ui tk (JObj [(''title'', JStr ''T'')]) a) = ''T''
       \<and> category_var (update_metadata_ui tk (JObj [(''title'', JStr ''T'')]) a) = []
       \<and> tags_entry (update_metadata_ui tk (JObj [(''title'', JStr ''T'')]) a) = []
       \<and> description_text (update_metadata_ui tk (JObj [(''title'', JStr ''T'')]) a) = [])"
proof -
  let ?d = "[(''title'', JStr ''T''), (''description'', JStr ''D''), (''category'', JStr ''nature''),
             (''tags'', JArr [JStr ''a'', JStr ''b''])]"
  have h1: "map_of ?d ''title'' = map_option JStr (Some ''T'')" by simp
  have h2: "map_of ?d ''category'' = map_option JStr (Some ''nature'')" by simp
  have h3: "map_of ?d ''tags'' = map_option (\<lambda>xs. JArr (map JStr xs)) (Some [''a'', ''b''])" by simp
  have h4: "map_of ?d ''description'' = map_option JStr (Some ''D'')" by simp
  have m1: "map_of [(''title'', JStr ''T'')] ''title'' = map_option JStr (Some ''T'')" by simp
  have m2: "map_of [(''title'', JStr ''T'')] ''category'' = map_option JStr None" by simp
  have m3: "map_of [(''title'', JStr ''T'')] ''tags''
              = map_option (\<lambda>xs. JArr (map JStr xs)) None" by simp
  have m4: "map_of [(''title'', JStr ''T'')] ''description'' = map_option JStr None" by simp
  show ?thesis
    using update_metadata_ui_overwrites[OF h1 h2 h3 h4]
      update_metadata_ui_overwrites[OF m1 m2 m3 m4] h1 h2 h3 h4
    by simp
qed

section \<open>The tags of the inserted row\<close>

lemma py_split_not_Nil: "py_split c s \<noteq> []"
  by (induction s) (auto split: list.splits)

lemma py_join_Cons: "ys \<noteq> [] \<Longrightarrow> py_join sep (x # ys) = x @ sep @ py_join sep ys"
  by (cases ys) simp_all

lemma py_join_split: "py_join [c] (py_split c s) = s"
proof (induction s)
  case Nil
  show ?case by simp
next
  case (Cons x s)
  show ?case
  proof (cases "x = c")
    case True
    then show ?thesis using Cons by (simp add: py_join_Cons py_split_not_Nil)
  next
    case False
    obtain w ws where w: "py_split c s = w # ws"
      using py_split_not_Nil[of c s] by (cases "py_split c s") auto
    then show ?thesis using False Cons by (cases ws) simp_all
  qed
qed

lemma py_split_no_sep: "list_all (\<lambda>seg. c \<notin> set seg) (py_split c s)"
  by (induction s) (auto split: list.splits)

lemma entry_tags_Nil: "entry_tags [] = []"
  by (simp add: entry_tags_def py_strip_Nil)

lemma stripped_segment:
  assumes "py_strip seg \<noteq> []"
  shows "py_strip seg \<noteq> [] \<and> \<not> list_all py_isspace (py_strip seg)
       \<and> \<not> py_isspace (hd (py_strip seg)) \<and> \<not> py_isspace (last (py_strip seg))"
proof -
  have "py_strip (py_strip seg) \<noteq> []" using assms by (simp add: py_strip_idem)
  then have "\<not> list_all py_isspace (py_strip seg)" by (simp add: py_strip_eq_Nil)
  then show ?thesis using assms py_strip_shape[OF assms] by simp
qed

lemma entry_tags_trimmed:
  "list_all (\<lambda>t. t \<noteq> [] \<and> \<not> list_all py_isspace t \<and> \<not> py_isspace (hd t) \<and> \<not> py_isspace (last t))
     (entry_tags entry)"
proof (rule iffD2[OF list_all_iff], rule ballI)
  fix t
  assume "t \<in> set (entry_tags entry)"
  then obtain seg where "t = py_strip seg" and "py_strip seg \<noteq> []"
    by (auto simp: entry_tags_def)
  then show "t \<noteq> [] \<and> \<not> list_all py_isspace t \<and> \<not> py_isspace (hd t) \<and> \<not> py_isspace (last t)"
    using stripped_segment[of seg] by simp
qed

lemma publish_try_insert_row:
  "list_all (\<lambda>c. case c of
                InsertWallpapers row \<Rightarrow>
                  row = prepare_wallpaper_data a
                          (py_format (env ''R2_PUBLIC_URL'') @ ''/'' @ uuid4 io
                             @ path_suffix (case selected_image_path a of None \<Rightarrow> [] | Some p \<Rightarrow> p))
              | UploadFileobj p b k t \<Rightarrow> True)
     (fst (publish_wallpaper_thread env io a))"
  by (simp add: publish_wallpaper_thread_def publish_try_def Let_def
        split: option.splits sum.splits)

text \<open>
  Claim C10. The tags of the row handed to the database are the segments of the tags
  field between its commas (the segments contain no comma and, joined with commas, give
  the field back), each trimmed, without the segments that are empty after trimming.
  So no tag is empty or made of white space only, no tag starts or ends with white
  space, an empty tags field gives the empty list, and every insert the publishing
  thread issues carries exactly this list.
\<close>

theorem insert_tags_split_trimmed_nonempty:
  "tags (prepare_wallpaper_data a public_url)
     = map py_strip (filter (\<lambda>seg. py_strip seg \<noteq> []) (py_split CHR '','' (tags_entry a)))
   \<and> py_join '','' (py_split CHR '','' (tags_entry a)) = tags_entry a
   \<and> list_all (\<lambda>seg. CHR '','' \<notin> set seg) (py_split CHR '','' (tags_entry a))
   \<and> list_all (\<lambda>t. t \<noteq> [] \<and> \<not> list_all py_isspace t
                    \<and> \<not> py_isspace (hd t) \<and> \<not> py_isspace (last t))
        (tags (prepare_wallpaper_data a public_url))
   \<and> tags (prepare_wallpaper_data (a\<lparr>tags_entry := []\<rparr>) public_url) = []
   \<and> list_all (\<lambda>c. case c of
                      InsertWallpapers row \<Rightarrow> tags row = tags (prepare_wallpaper_data a public_url)
                    | UploadFileobj p b k t \<Rightarrow> True)
        (fst (publish_wallpaper_thread env io a))"
proof -
  have t: "tags (prepare_wallpaper_data b url) = entry_tags (tags_entry b)" for b url
    by (simp add: prepare_wallpaper_data_def)
  have c1: "tags (prepare_wallpaper_data a public_url)
     = map py_strip (filter (\<lambda>seg. py_strip seg \<noteq> []) (py_split CHR '','' (tags_entry a)))"
    by (simp add: t entry_tags_def)
  have c2: "py_join '','' (py_split CHR '','' (tags_entry a)) = tags_entry a"
    by (rule py_join_split)
  have c3: "list_all (\<lambda>seg. CHR '','' \<notin> set seg) (py_split CHR '','' (tags_entry a))"
    by (rule py_split_no_sep)
  have c4: "list_all (\<lambda>t. t \<noteq> [] \<and> \<not> list_all py_isspace t
                    \<and> \<not> py_isspace (hd t) \<and> \<not> py_isspace (last t))
        (tags (prepare_wallpaper_data a public_url))"
    unfolding t by (rule entry_tags_trimmed)
  have c5: "tags (prepare_wallpaper_data (a\<lparr>tags_entry := []\<rparr>) public_url) = []"
    by (simp add: t entry_tags_Nil)
  have c6: "list_all (\<lambda>c. case c of
                      InsertWallpapers row \<Rightarrow> tags row = tags (prepare_wallpaper_data a public_url)
                    | UploadFileobj p b k t \<Rightarrow> True)
        (fst (publish_wallpaper_thread env io a))"
    using publish_try_insert_row[of a env io]
    by (rule list.pred_mono_strong) (auto simp: t split: call.splits)
  from c1 c2 c3 c4 c5 c6 show ?thesis by (intro conjI)
qed

text \<open>
  The tags fields \<^verbatim>\<open>" sky, ,blue  sea ,,"\<close> and \<^verbatim>\<open>" ,  "\<close>.
\<close>

theorem insert_tags_witness:
  "tags (prepare_wallpaper_data ((setup_ui [])\<lparr>tags_entry := '' sky, ,blue  sea ,,''\<rparr>) ''u'')
     = [''sky'', ''blue  sea'']
   \<and> tags (prepare_wallpaper_data ((setup_ui [])\<lparr>tags_entry := '' ,  ''\<rparr>) ''u'') = []"
proof -
  have e: "py_split CHR '','' '' sky, ,blue  sea ,,'' = ['' sky'', '' '', ''blue  sea '', [], []]"
    by simp
  have e2: "py_split CHR '','' '' ,  '' = ['' '', ''  '']" by simp
  have s: "py_strip '' sky'' = ''sky''" "py_strip '' '' = []" "py_strip ''blue  sea '' = ''blue  sea''"
    "py_strip [] = []" "py_strip ''  '' = []"
    by (simp_all add: py_strip_def py_rstrip_def py_lstrip_def py_isspace_def)
  show ?thesis
    using insert_tags_split_trimmed_nonempty[of "(setup_ui [])\<lparr>tags_entry := '' sky, ,blue  sea ,,''\<rparr>" "''u''"]
      insert_tags_split_trimmed_nonempty[of "(setup_ui [])\<lparr>tags_entry := '' ,  ''\<rparr>" "''u''"]
    by (simp add: e e2 s)
qed

section \<open>The publishing thread and its callbacks\<close>

lemma run_callbacks_Nil: "run_callbacks b tk [] a = a"
  by (simp add: run_callbacks_def)

lemma run_callbacks_Cons:
  "run_callbacks b tk (cb # cbs) a = run_callbacks b tk cbs (run_callback b tk cb a)"
  by (simp add: run_callbacks_def)

lemma upload_failure_no_insert:
  assumes "upload_fileobj io = Some e"
  shows "list_all (\<lambda>c. case c of InsertWallpapers row \<Rightarrow> False | UploadFileobj p b k t \<Rightarrow> True)
           (fst (publish_wallpaper_thread env io a))"
  using assms
  by (simp add: publish_wallpaper_thread_def publish_try_def Let_def split: option.splits)

lemma publish_thread_success:
  assumes "selected_image_path a = Some path"
    and "open_rb io = None" and "r2_client a = Some r2" and "upload_fileobj io = None"
    and "supabase_client a = Some db" and "insert_execute io = Inr rows" and "rows \<noteq> []"
  shows "publish_wallpaper_thread env io a =
           ([UploadFileobj path (env ''R2_BUCKET_NAME'') (uuid4 io @ path_suffix path)
               (''image/'' @ drop 1 (path_suffix path)),
             InsertWallpapers (prepare_wallpaper_data a
               (py_format (env ''R2_PUBLIC_URL'') @ ''/'' @ uuid4 io @ path_suffix path))],
            [ProgressStart, UpdateStatus ''Uploading to R2...'' ''blue'',
             UpdateStatus ''Saving to database...'' ''blue'',
             PublishSuccess (py_format (env ''R2_PUBLIC_URL'') @ ''/'' @ uuid4 io @ path_suffix path),
             ProgressStop])"
  using assms by (simp add: publish_wallpaper_thread_def publish_try_def Let_def)

lemma publish_thread_upload_fails:
  assumes "selected_image_path a = Some path"
    and "open_rb io = None" and "r2_client a = Some r2" and "upload_fileobj io = Some e"
  shows "publish_wallpaper_thread env io a =
           ([UploadFileobj path (env ''R2_BUCKET_NAME'') (uuid4 io @ path_suffix path)
               (''image/'' @ drop 1 (path_suffix path))],
            [ProgressStart, UpdateStatus ''Uploading to R2...'' ''blue'', PublishError e,
             ProgressStop])"
  using assms by (simp add: publish_wallpaper_thread_def publish_try_def Let_def)

lemma publish_thread_insert_fails:
  assumes "selected_image_path a = Some path"
    and "open_rb io = None" and "r2_client a = Some r2" and "upload_fileobj io = None"
    and "supabase_client a = Some db"
    and "case insert_execute io of Inl e \<Rightarrow> True | Inr rows \<Rightarrow> rows = []"
  shows "publish_wallpaper_thread env io a =
           ([UploadFileobj path (env ''R2_BUCKET_NAME'') (uuid4 io @ path_suffix path)
               (''image/'' @ drop 1 (path_suffix path)),
             InsertWallpapers (prepare_wallpaper_data a
               (py_format (env ''R2_PUBLIC_URL'') @ ''/'' @ uuid4 io @ path_suffix path))],
            [ProgressStart, UpdateStatus ''Uploading to R2...'' ''blue'',
             UpdateStatus ''Saving to database...'' ''blue'',
             PublishError (case insert_execute io of
                             Inl e \<Rightarrow> e
                           | Inr rows \<Rightarrow> ''Failed to insert into database''),
             ProgressStop])"
  using assms
  by (simp add: publish_wallpaper_thread_def publish_try_def Let_def split: sum.splits)

lemma run_success_callbacks:
  "run_callbacks b tk
     [ProgressStart, UpdateStatus ''Uploading to R2...'' ''blue'',
      UpdateStatus ''Saving to database...'' ''blue'', PublishSuccess url, ProgressStop] a
   = (setup_ui (gemini_api_key a))
       \<lparr>supabase_client := supabase_client a,
        r2_client := r2_client a,
        gemini_key_entry := gemini_key_entry a,
        dialogs := dialogs a @
          [ShowInfo ''Success'' (''Wallpaper published successfully!'' @ [CHR 0x0A] @ ''URL: '' @ url)]\<rparr>"
  by (simp add: run_callbacks_def run_callback_def publish_success_def clear_all_def
        check_ready_state_def update_status_def messagebox_def setup_ui_def py_truthy_def Let_def)

lemma run_failure_callbacks:
  "run_callbacks b tk (ProgressStart # UpdateStatus m1 c1 # mid @ [PublishError e, ProgressStop]) a
   = (let a1 = run_callbacks b tk mid (a\<lparr>progress_bar := True, status_label := (m1, c1)\<rparr>)
      in if b then (a1\<lparr>progress_bar := False,
                       status_label := (''Publishing failed: '' @ e, ''red''),
                       dialogs := dialogs a1 @
                         [ShowError ''Publishing Error'' (''Failed to publish wallpaper: '' @ e)]\<rparr>)
         else a1\<lparr>progress_bar := False\<rparr>)"
  by (simp add: run_callbacks_def run_callback_def publish_error_def update_status_def
        messagebox_def Let_def)

text \<open>
  Claim C5. Take a publish of a selected file whose suffix is \<^verbatim>\<open>.png\<close> in which the file
  opens, the upload returns, the insert returns rows, both clients exist and the public
  base URL is configured. The thread then makes exactly two calls, in this order: one
  upload, under the key made of the identifier that \<^verbatim>\<open>uuid.uuid4()\<close> returned followed by
  \<^verbatim>\<open>.png\<close>, and one insert, whose \<open>image_url\<close> is the public base URL, a slash and that
  key. After the callbacks have run the form is the form as \<^verbatim>\<open>setup_ui\<close> builds it,
  except for the clients, the API key entry and the message boxes shown. Whenever the
  upload raises, whatever else happens, the thread issues no insert. (That two calls of
  \<^verbatim>\<open>uuid.uuid4()\<close> differ is a property of that library and not of this program.)
\<close>

theorem successful_publish:
  assumes "selected_image_path a = Some path" and "path_suffix path = ''.png''"
    and "open_rb io = None" and "r2_client a = Some r2" and "upload_fileobj io = None"
    and "supabase_client a = Some db" and "insert_execute io = Inr rows" and "rows \<noteq> []"
    and "env ''R2_PUBLIC_URL'' = Some public_base"
  shows "publish_wallpaper_thread env io a =
           ([UploadFileobj path (env ''R2_BUCKET_NAME'') (uuid4 io @ ''.png'') ''image/png'',
             InsertWallpapers
               (prepare_wallpaper_data a (public_base @ ''/'' @ uuid4 io @ ''.png''))],
            [ProgressStart, UpdateStatus ''Uploading to R2...'' ''blue'',
             UpdateStatus ''Saving to database...'' ''blue'',
             PublishSuccess (public_base @ ''/'' @ uuid4 io @ ''.png''),
             ProgressStop])
       \<and> image_url (prepare_wallpaper_data a (public_base @ ''/'' @ uuid4 io @ ''.png''))
           = public_base @ ''/'' @ uuid4 io @ ''.png''
       \<and> run_callbacks e_bound tk (snd (publish_wallpaper_thread env io a)) a =
           (setup_ui (gemini_api_key a))
             \<lparr>supabase_client := supabase_client a,
              r2_client := r2_client a,
              gemini_key_entry := gemini_key_entry a,
              dialogs := dialogs a @
                [ShowInfo ''Success''
                   (''Wallpaper published successfully!'' @ [CHR 0x0A] @ ''URL: ''
                      @ public_base @ ''/'' @ uuid4 io @ ''.png'')]\<rparr>
       \<and> (\<forall>io'. upload_fileobj io' \<noteq> None \<longrightarrow>
             list_all (\<lambda>c. case c of
                              InsertWallpapers row \<Rightarrow> False
                            | UploadFileobj p b k t \<Rightarrow> True)
               (fst (publish_wallpaper_thread env io' a)))"
proof -
  have thread: "publish_wallpaper_thread env io a =
           ([UploadFileobj path (env ''R2_BUCKET_NAME'') (uuid4 io @ ''.png'') ''image/png'',
             InsertWallpapers
               (prepare_wallpaper_data a (public_base @ ''/'' @ uuid4 io @ ''.png''))],
            [ProgressStart, UpdateStatus ''Uploading to R2...'' ''blue'',
             UpdateStatus ''Saving to database...'' ''blue'',
             PublishSuccess (public_base @ ''/'' @ uuid4 io @ ''.png''),
             ProgressStop])"
    using publish_thread_success[OF assms(1,3,4,5,6,7,8), of env] assms(2,9)
    by (simp add: py_format_def)
  have url: "image_url (prepare_wallpaper_data a (public_base @ ''/'' @ uuid4 io @ ''.png''))
           = public_base @ ''/'' @ uuid4 io @ ''.png''"
    by (simp add: prepare_wallpaper_data_def)
  have reset: "run_callbacks e_bound tk (snd (publish_wallpaper_thread env io a)) a =
           (setup_ui (gemini_api_key a))
             \<lparr>supabase_client := supabase_client a,
              r2_client := r2_client a,
              gemini_key_entry := gemini_key_entry a,
              dialogs := dialogs a @
                [ShowInfo ''Success''
                   (''Wallpaper published successfully!'' @ [CHR 0x0A] @ ''URL: ''
                      @ public_base @ ''/'' @ uuid4 io @ ''.png'')]\<rparr>"
    unfolding thread snd_conv by (rule run_success_callbacks)
  have only_if: "\<forall>io'. upload_fileobj io' \<noteq> None \<longrightarrow>
             list_all (\<lambda>c. case c of
                              InsertWallpapers row \<Rightarrow> False
                            | UploadFileobj p b k t \<Rightarrow> True)
               (fst (publish_wallpaper_thread env io' a))"
    using upload_failure_no_insert by blast
  from thread url reset only_if show ?thesis by (intro conjI)
qed

text \<open>
  A publish in which the upload returns and the insert then raises or returns no rows.
  The thread has made exactly the upload and the insert, and no other call; it ends in
  its \<^verbatim>\<open>except\<close> clause and hands over the failure callback, with the text of the
  exception or, when no rows came back, the text \<^verbatim>\<open>Failed to insert into database\<close>.
  Nothing is reset. The failure is shown only when the callback can still read the
  exception; otherwise the status line keeps the text \<^verbatim>\<open>Saving to database...\<close>.
\<close>

lemma insert_failure_outcome:
  assumes "selected_image_path a = Some path"
    and "open_rb io = None" and "r2_client a = Some r2" and "upload_fileobj io = None"
    and "supabase_client a = Some db"
    and "case insert_execute io of Inl e \<Rightarrow> True | Inr rows \<Rightarrow> rows = []"
  shows "publish_wallpaper_thread env io a =
           ([UploadFileobj path (env ''R2_BUCKET_NAME'') (uuid4 io @ path_suffix path)
               (''image/'' @ drop 1 (path_suffix path)),
             InsertWallpapers (prepare_wallpaper_data a
               (py_format (env ''R2_PUBLIC_URL'') @ ''/'' @ uuid4 io @ path_suffix path))],
            [ProgressStart, UpdateStatus ''Uploading to R2...'' ''blue'',
             UpdateStatus ''Saving to database...'' ''blue'',
             PublishError (case insert_execute io of
                             Inl e \<Rightarrow> e
                           | Inr rows \<Rightarrow> ''Failed to insert into database''),
             ProgressStop])
       \<and> run_callbacks True tk (snd (publish_wallpaper_thread env io a)) a =
           a\<lparr>progress_bar := False,
             status_label :=
               (''Publishing failed: '' @ (case insert_execute io of
                                              Inl e \<Rightarrow> e
                                            | Inr rows \<Rightarrow> ''Failed to insert into database''),
                ''red''),
             dialogs := dialogs a @
               [ShowError ''Publishing Error''
                  (''Failed to publish wallpaper: '' @ (case insert_execute io of
                                              Inl e \<Rightarrow> e
                                            | Inr rows \<Rightarrow> ''Failed to insert into database''))]\<rparr>
       \<and> run_callbacks False tk (snd (publish_wallpaper_thread env io a)) a =
           a\<lparr>progress_bar := False, status_label := (''Saving to database...'', ''blue'')\<rparr>"
proof -
  note thread = publish_thread_insert_fails[OF assms, of env]
  have cbs: "snd (publish_wallpaper_thread env io a) =
      ProgressStart # UpdateStatus ''Uploading to R2...'' ''blue''
        # [UpdateStatus ''Saving to database...'' ''blue'']
        @ [PublishError (case insert_execute io of
                             Inl e \<Rightarrow> e
                           | Inr rows \<Rightarrow> ''Failed to insert into database''), ProgressStop]"
    by (simp add: thread)
  have shown: "run_callbacks True tk (snd (publish_wallpaper_thread env io a)) a =
           a\<lparr>progress_bar := False,
             status_label :=
               (''Publishing failed: '' @ (case insert_execute io of
                                              Inl e \<Rightarrow> e
                                            | Inr rows \<Rightarrow> ''Failed to insert into database''),
                ''red''),
             dialogs := dialogs a @
               [ShowError ''Publishing Error''
                  (''Failed to publish wallpaper: '' @ (case insert_execute io of
                                              Inl e \<Rightarrow> e
                                            | Inr rows \<Rightarrow> ''Failed to insert into database''))]\<rparr>"
    unfolding cbs run_failure_callbacks
    by (simp add: run_callbacks_def run_callback_def update_status_def)
  have silent: "run_callbacks False tk (snd (publish_wallpaper_thread env io a)) a =
           a\<lparr>progress_bar := False, status_label := (''Saving to database...'', ''blue'')\<rparr>"
    unfolding cbs run_failure_callbacks
    by (simp add: run_callbacks_def run_callback_def update_status_def)
  from thread shown silent show ?thesis by (intro conjI)
qed

section \<open>The example of the specification, evaluated\<close>

lemma example_form:
  "select_image ''/home/u/photo.png'' None
     ((initialize_services \<lparr>create_client = None, boto3_client = None\<rparr> (setup_ui []))
        \<lparr>title_entry := ''Mountain'', category_var := ''nature''\<rparr>)
   = \<lparr>gemini_api_key = [],
      supabase_client = Some SupabaseClient,
      r2_client = Some R2Client,
      selected_image_path = Some ''/home/u/photo.png'',
      preview_image = Some (PhotoImage ''/home/u/photo.png''),
      generated_metadata = JObj [],
      image_path_label = (''photo.png'', ''black''),
      preview_label = (Some (PhotoImage ''/home/u/photo.png''), []),
      generate_btn = DISABLED,
      gemini_key_entry = [],
      title_entry = ''Mountain'',
      category_var = ''nature'',
      tags_entry = [],
      description_text = [],
      progress_bar = False,
      status_label = (''Services initialized successfully'', ''green''),
      publish_btn = NORMAL,
      dialogs = []\<rparr>"
proof -
  have s: "py_strip ''Mountain'' = ''Mountain''" "py_strip ''nature'' = ''nature''"
    by (simp_all add: py_strip_def py_rstrip_def py_lstrip_def py_isspace_def)
  show ?thesis
    by (simp add: select_image_def show_preview_def initialize_services_def setup_ui_def
          check_ready_state_def update_status_def os_path_basename_def py_rfind_def
          py_truthy_def py_strip_Nil s Let_def)
qed

lemma example_suffix: "path_suffix ''/home/u/photo.png'' = ''.png''"
  by (simp add: path_suffix_def path_name_def py_rfind_def)

lemma example_row:
  "prepare_wallpaper_data
     \<lparr>gemini_api_key = [],
      supabase_client = Some SupabaseClient,
      r2_client = Some R2Client,
      selected_image_path = Some ''/home/u/photo.png'',
      preview_image = Some (PhotoImage ''/home/u/photo.png''),
      generated_metadata = JObj [],
      image_path_label = (''photo.png'', ''black''),
      preview_label = (Some (PhotoImage ''/home/u/photo.png''), []),
      generate_btn = DISABLED,
      gemini_key_entry = [],
      title_entry = ''Mountain'',
      category_var = ''nature'',
      tags_entry = [],
      description_text = [],
      progress_bar = False,
      status_label = (''Services initialized successfully'', ''green''),
      publish_btn = NORMAL,
      dialogs = []\<rparr>
     url
   = \<lparr>title = ''Mountain'', description = [], category = ''nature'', tags = [], image_url = url\<rparr>"
proof -
  have s: "py_strip ''Mountain'' = ''Mountain''" "py_strip ''nature'' = ''nature''"
    "py_strip [CHR 0x0A] = []"
    by (simp_all add: py_strip_def py_rstrip_def py_lstrip_def py_isspace_def)
  show ?thesis
    by (simp add: prepare_wallpaper_data_def text_get_all_def entry_tags_Nil s)
qed

text \<open>
  The hypotheses of C5 hold for \<^verbatim>\<open>photo.png\<close> with title \<^verbatim>\<open>Mountain\<close> and category
  \<^verbatim>\<open>nature\<close>.
\<close>

theorem successful_publish_witness:
  "let a = (select_image ''/home/u/photo.png'' None
            ((initialize_services \<lparr>create_client = None, boto3_client = None\<rparr> (setup_ui []))
               \<lparr>title_entry := ''Mountain'', category_var := ''nature''\<rparr>));
       io = \<lparr>uuid4 = ''1b9d6bcd-bbfd'', open_rb = None, upload_fileobj = None,
             insert_execute = Inr [JObj []]\<rparr>;
       env = map_of [(''R2_BUCKET_NAME'', ''wallpapers''),
                     (''R2_PUBLIC_URL'', ''https://cdn.example.com'')]
   in selected_image_path a = Some ''/home/u/photo.png''
      \<and> path_suffix ''/home/u/photo.png'' = ''.png''
      \<and> open_rb io = None \<and> r2_client a = Some R2Client \<and> upload_fileobj io = None
      \<and> supabase_client a = Some SupabaseClient \<and> insert_execute io = Inr [JObj []]
      \<and> [JObj []] \<noteq> []
      \<and> env ''R2_PUBLIC_URL'' = Some ''https://cdn.example.com''
      \<and> fst (publish_wallpaper_thread env io a) =
            [UploadFileobj ''/home/u/photo.png'' (Some ''wallpapers'') ''1b9d6bcd-bbfd.png''
               ''image/png'',
             InsertWallpapers
               \<lparr>title = ''Mountain'', description = [], category = ''nature'', tags = [],
                image_url = ''https://cdn.example.com/1b9d6bcd-bbfd.png''\<rparr>]
      \<and> (\<forall>b tk.
            selected_image_path (run_callbacks b tk (snd (publish_wallpaper_thread env io a)) a) = None
          \<and> title_entry (run_callbacks b tk (snd (publish_wallpaper_thread env io a)) a) = []
          \<and> category_var (run_callbacks b tk (snd (publish_wallpaper_thread env io a)) a) = []
          \<and> publish_btn (run_callbacks b tk (snd (publish_wallpaper_thread env io a)) a) = DISABLED)"
proof -
  let ?a = "\<lparr>gemini_api_key = [],
      supabase_client = Some SupabaseClient,
      r2_client = Some R2Client,
      selected_image_path = Some ''/home/u/photo.png'',
      preview_image = Some (PhotoImage ''/home/u/photo.png''),
      generated_metadata = JObj [],
      image_path_label = (''photo.png'', ''black''),
      preview_label = (Some (PhotoImage ''/home/u/photo.png''), []),
      generate_btn = DISABLED,
      gemini_key_entry = [],
      title_entry = ''Mountain'',
      category_var = ''nature'',
      tags_entry = [],
      description_text = [],
      progress_bar = False,
      status_label = (''Services initialized successfully'', ''green''),
      publish_btn = NORMAL,
      dialogs = []\<rparr>"
  let ?io = "\<lparr>uuid4 = ''1b9d6bcd-bbfd'', open_rb = None, upload_fileobj = None,
             insert_execute = Inr [JObj []]\<rparr>"
  let ?env = "map_of [(''R2_BUCKET_NAME'', ''wallpapers''),
                     (''R2_PUBLIC_URL'', ''https://cdn.example.com'')]"
  have h1: "selected_image_path ?a = Some ''/home/u/photo.png''" by simp
  have h3: "open_rb ?io = None" by simp
  have h4: "r2_client ?a = Some R2Client" by simp
  have h5: "upload_fileobj ?io = None" by simp
  have h6: "supabase_client ?a = Some SupabaseClient" by simp
  have h7: "insert_execute ?io = Inr [JObj []]" by simp
  have h8: "[JObj []] \<noteq> []" by simp
  have h9: "?env ''R2_PUBLIC_URL'' = Some ''https://cdn.example.com''" by simp
  note t = successful_publish[where env = "?env" and a = "?a" and io = "?io",
               OF h1 example_suffix h3 h4 h5 h6 h7 h8 h9]
  have b: "?env ''R2_BUCKET_NAME'' = Some ''wallpapers''" by simp
  note thread = t[THEN conjunct1]
  note reset = t[THEN conjunct2, THEN conjunct2, THEN conjunct1, unfolded thread snd_conv, simplified]
  show ?thesis
    unfolding Let_def example_form
    by (simp add: thread reset b example_row example_suffix setup_ui_def del: map_of.simps)
qed

lemma publish_wallpaper_valid:
  assumes "py_truthy (selected_image_path a)"
    and "py_strip (title_entry a) \<noteq> []" and "py_strip (category_var a) \<noteq> []"
  shows "publish_wallpaper b tk env io a =
           (fst (publish_wallpaper_thread env io a),
            run_callbacks b tk (snd (publish_wallpaper_thread env io a)) a)"
  using assms by (simp add: publish_wallpaper_def validate_form_def split: prod.splits)

text \<open>
  Claim C7, evaluated where it fails. The upload of \<^verbatim>\<open>photo.png\<close> returns; the insert
  returns no rows, or raises \<^verbatim>\<open>permission denied\<close>. In both cases the calls are exactly one
  upload and one insert (the program has no call that deletes an object) and no field
  of the form is reset. When the failure callback runs after the thread has left its
  \<^verbatim>\<open>except\<close> clause, no failure is reported: no message box is shown and the status line
  still reads \<^verbatim>\<open>Saving to database...\<close>. Only when the callback runs while the
  exception variable is still bound are the status line and the message box set, with
  the text \<^verbatim>\<open>Failed to insert into database\<close> when no rows came back.
\<close>

theorem insert_failure_not_reported:
  "let a = (select_image ''/home/u/photo.png'' None
            ((initialize_services \<lparr>create_client = None, boto3_client = None\<rparr> (setup_ui []))
               \<lparr>title_entry := ''Mountain'', category_var := ''nature''\<rparr>));
       no_rows = \<lparr>uuid4 = ''1b9d6bcd-bbfd'', open_rb = None, upload_fileobj = None,
                  insert_execute = Inr []\<rparr>;
       raises = \<lparr>uuid4 = ''1b9d6bcd-bbfd'', open_rb = None, upload_fileobj = None,
                 insert_execute = Inl ''permission denied''\<rparr>;
       env = map_of [(''R2_BUCKET_NAME'', ''wallpapers''),
                     (''R2_PUBLIC_URL'', ''https://cdn.example.com'')]
   in \<forall>tk.
        publish_wallpaper False tk env no_rows a =
          ([UploadFileobj ''/home/u/photo.png'' (Some ''wallpapers'') ''1b9d6bcd-bbfd.png''
              ''image/png'',
            InsertWallpapers
              \<lparr>title = ''Mountain'', description = [], category = ''nature'', tags = [],
               image_url = ''https://cdn.example.com/1b9d6bcd-bbfd.png''\<rparr>],
           a\<lparr>status_label := (''Saving to database...'', ''blue'')\<rparr>)
      \<and> dialogs (snd (publish_wallpaper False tk env no_rows a)) = []
      \<and> publish_wallpaper False tk env raises a =
          ([UploadFileobj ''/home/u/photo.png'' (Some ''wallpapers'') ''1b9d6bcd-bbfd.png''
              ''image/png'',
            InsertWallpapers
              \<lparr>title = ''Mountain'', description = [], category = ''nature'', tags = [],
               image_url = ''https://cdn.example.com/1b9d6bcd-bbfd.png''\<rparr>],
           a\<lparr>status_label := (''Saving to database...'', ''blue'')\<rparr>)
      \<and> dialogs (snd (publish_wallpaper False tk env raises a)) = []
      \<and> publish_wallpaper True tk env no_rows a =
          ([UploadFileobj ''/home/u/photo.png'' (Some ''wallpapers'') ''1b9d6bcd-bbfd.png''
              ''image/png'',
            InsertWallpapers
              \<lparr>title = ''Mountain'', description = [], category = ''nature'', tags = [],
               image_url = ''https://cdn.example.com/1b9d6bcd-bbfd.png''\<rparr>],
           a\<lparr>status_label := (''Publishing failed: Failed to insert into database'', ''red''),
             dialogs := [ShowError ''Publishing Error''
                           ''Failed to publish wallpaper: Failed to insert into database'']\<rparr>)
      \<and> publish_wallpaper True tk env raises a =
          ([UploadFileobj ''/home/u/photo.png'' (Some ''wallpapers'') ''1b9d6bcd-bbfd.png''
              ''image/png'',
            InsertWallpapers
              \<lparr>title = ''Mountain'', description = [], category = ''nature'', tags = [],
               image_url = ''https://cdn.example.com/1b9d6bcd-bbfd.png''\<rparr>],
           a\<lparr>status_label := (''Publishing failed: permission denied'', ''red''),
             dialogs := [ShowError ''Publishing Error''
                           ''Failed to publish wallpaper: permission denied'']\<rparr>)"
proof -
  let ?a = "\<lparr>gemini_api_key = [],
      supabase_client = Some SupabaseClient,
      r2_client = Some R2Client,
      selected_image_path = Some ''/home/u/photo.png'',
      preview_image = Some (PhotoImage ''/home/u/photo.png''),
      generated_metadata = JObj [],
      image_path_label = (''photo.png'', ''black''),
      preview_label = (Some (PhotoImage ''/home/u/photo.png''), []),
      generate_btn = DISABLED,
      gemini_key_entry = [],
      title_entry = ''Mountain'',
      category_var = ''nature'',
      tags_entry = [],
      description_text = [],
      progress_bar = False,
      status_label = (''Services initialized successfully'', ''green''),
      publish_btn = NORMAL,
      dialogs = []\<rparr>"
  let ?n = "\<lparr>uuid4 = ''1b9d6bcd-bbfd'', open_rb = None, upload_fileobj = None,
             insert_execute = Inr []\<rparr>"
  let ?r = "\<lparr>uuid4 = ''1b9d6bcd-bbfd'', open_rb = None, upload_fileobj = None,
             insert_execute = Inl ''permission denied''\<rparr>"
  let ?env = "map_of [(''R2_BUCKET_NAME'', ''wallpapers''),
                     (''R2_PUBLIC_URL'', ''https://cdn.example.com'')]"
  have s: "py_strip ''Mountain'' = ''Mountain''" "py_strip ''nature'' = ''nature''"
    by (simp_all add: py_strip_def py_rstrip_def py_lstrip_def py_isspace_def)
  have v: "publish_wallpaper b tk ?env io ?a =
           (fst (publish_wallpaper_thread ?env io ?a),
            run_callbacks b tk (snd (publish_wallpaper_thread ?env io ?a)) ?a)" for b tk io
    by (rule publish_wallpaper_valid) (simp_all add: py_truthy_def s)
  have h1: "selected_image_path ?a = Some ''/home/u/photo.png''" by simp
  have h3: "r2_client ?a = Some R2Client" by simp
  have h5: "supabase_client ?a = Some SupabaseClient" by simp
  have n2: "open_rb ?n = None" and n4: "upload_fileobj ?n = None"
    and n6: "case insert_execute ?n of Inl e \<Rightarrow> True | Inr rows \<Rightarrow> rows = []"
    by simp_all
  have r2: "open_rb ?r = None" and r4: "upload_fileobj ?r = None"
    and r6: "case insert_execute ?r of Inl e \<Rightarrow> True | Inr rows \<Rightarrow> rows = []"
    by simp_all
  note tn = insert_failure_outcome[where env = "?env" and a = "?a" and io = "?n",
              OF h1 n2 h3 n4 h5 n6]
  note tr = insert_failure_outcome[where env = "?env" and a = "?a" and io = "?r",
              OF h1 r2 h3 r4 h5 r6]
  have b: "?env ''R2_BUCKET_NAME'' = Some ''wallpapers''"
    "?env ''R2_PUBLIC_URL'' = Some ''https://cdn.example.com''" by simp_all
  note thread_n = tn[THEN conjunct1]
  note shown_n = tn[THEN conjunct2, THEN conjunct1, unfolded thread_n snd_conv, simplified]
  note silent_n = tn[THEN conjunct2, THEN conjunct2, unfolded thread_n snd_conv, simplified]
  note thread_r = tr[THEN conjunct1]
  note shown_r = tr[THEN conjunct2, THEN conjunct1, unfolded thread_r snd_conv, simplified]
  note silent_r = tr[THEN conjunct2, THEN conjunct2, unfolded thread_r snd_conv, simplified]
  show ?thesis
    unfolding Let_def example_form
    by (simp add: v thread_n shown_n silent_n thread_r shown_r silent_r b example_row
          example_suffix py_format_def del: map_of.simps)
qed

lemma upload_failure_outcome:
  assumes "selected_image_path a = Some path"
    and "open_rb io = None" and "r2_client a = Some r2" and "upload_fileobj io = Some e"
  shows "fst (publish_wallpaper_thread env io a) =
           [UploadFileobj path (env ''R2_BUCKET_NAME'') (uuid4 io @ path_suffix path)
              (''image/'' @ drop 1 (path_suffix path))]"
    and "run_callbacks True tk (snd (publish_wallpaper_thread env io a)) a =
           a\<lparr>progress_bar := False,
             status_label := (''Publishing failed: '' @ e, ''red''),
             dialogs := dialogs a @
               [ShowError ''Publishing Error'' (''Failed to publish wallpaper: '' @ e)]\<rparr>"
    and "run_callbacks False tk (snd (publish_wallpaper_thread env io a)) a =
           a\<lparr>progress_bar := False, status_label := (''Uploading to R2...'', ''blue'')\<rparr>"
proof -
  note thread = publish_thread_upload_fails[OF assms, of env]
  have cbs: "snd (publish_wallpaper_thread env io a) =
      ProgressStart # UpdateStatus ''Uploading to R2...'' ''blue'' # []
        @ [PublishError e, ProgressStop]"
    by (simp add: thread)
  show "fst (publish_wallpaper_thread env io a) =
           [UploadFileobj path (env ''R2_BUCKET_NAME'') (uuid4 io @ path_suffix path)
              (''image/'' @ drop 1 (path_suffix path))]"
    by (simp add: thread)
  show "run_callbacks True tk (snd (publish_wallpaper_thread env io a)) a =
           a\<lparr>progress_bar := False,
             status_label := (''Publishing failed: '' @ e, ''red''),
             dialogs := dialogs a @
               [ShowError ''Publishing Error'' (''Failed to publish wallpaper: '' @ e)]\<rparr>"
    unfolding cbs run_failure_callbacks by (simp add: run_callbacks_Nil)
  show "run_callbacks False tk (snd (publish_wallpaper_thread env io a)) a =
           a\<lparr>progress_bar := False, status_label := (''Uploading to R2...'', ''blue'')\<rparr>"
    unfolding cbs run_failure_callbacks by (simp add: run_callbacks_Nil)
qed

text \<open>
  Claim C6, evaluated where it fails. The upload of \<^verbatim>\<open>photo.png\<close> raises \<^verbatim>\<open>AccessDenied\<close>.
  No insert is issued and no field of the form is reset, under either order of events.
  When the failure callback runs after the thread has left its \<^verbatim>\<open>except\<close> clause, no
  failure is reported: no message box is shown and the status line still reads
  \<^verbatim>\<open>Uploading to R2...\<close>. Only when the callback runs while the exception variable is
  still bound are the status line and the message box set with the error text.
\<close>

theorem upload_failure_not_reported:
  "let a = (select_image ''/home/u/photo.png'' None
            ((initialize_services \<lparr>create_client = None, boto3_client = None\<rparr> (setup_ui []))
               \<lparr>title_entry := ''Mountain'', category_var := ''nature''\<rparr>));
       io = \<lparr>uuid4 = ''1b9d6bcd-bbfd'', open_rb = None, upload_fileobj = Some ''AccessDenied'',
             insert_execute = Inr [JObj []]\<rparr>;
       env = map_of [(''R2_BUCKET_NAME'', ''wallpapers''),
                     (''R2_PUBLIC_URL'', ''https://cdn.example.com'')]
   in \<forall>tk.
        publish_wallpaper False tk env io a =
          ([UploadFileobj ''/home/u/photo.png'' (Some ''wallpapers'') ''1b9d6bcd-bbfd.png''
              ''image/png''],
           a\<lparr>status_label := (''Uploading to R2...'', ''blue'')\<rparr>)
      \<and> dialogs (snd (publish_wallpaper False tk env io a)) = []
      \<and> publish_wallpaper True tk env io a =
          ([UploadFileobj ''/home/u/photo.png'' (Some ''wallpapers'') ''1b9d6bcd-bbfd.png''
              ''image/png''],
           a\<lparr>status_label := (''Publishing failed: AccessDenied'', ''red''),
             dialogs := [ShowError ''Publishing Error''
                           ''Failed to publish wallpaper: AccessDenied'']\<rparr>)"
proof -
  let ?a = "\<lparr>gemini_api_key = [],
      supabase_client = Some SupabaseClient,
      r2_client = Some R2Client,
      selected_image_path = Some ''/home/u/photo.png'',
      preview_image = Some (PhotoImage ''/home/u/photo.png''),
      generated_metadata = JObj [],
      image_path_label = (''photo.png'', ''black''),
      preview_label = (Some (PhotoImage ''/home/u/photo.png''), []),
      generate_btn = DISABLED,
      gemini_key_entry = [],
      title_entry = ''Mountain'',
      category_var = ''nature'',
      tags_entry = [],
      description_text = [],
      progress_bar = False,
      status_label = (''Services initialized successfully'', ''green''),
      publish_btn = NORMAL,
      dialogs = []\<rparr>"
  let ?io = "\<lparr>uuid4 = ''1b9d6bcd-bbfd'', open_rb = None, upload_fileobj = Some ''AccessDenied'',
             insert_execute = Inr [JObj []]\<rparr>"
  let ?env = "map_of [(''R2_BUCKET_NAME'', ''wallpapers''),
                     (''R2_PUBLIC_URL'', ''https://cdn.example.com'')]"
  have s: "py_strip ''Mountain'' = ''Mountain''" "py_strip ''nature'' = ''nature''"
    by (simp_all add: py_strip_def py_rstrip_def py_lstrip_def py_isspace_def)
  have v: "publish_wallpaper b tk ?env ?io ?a =
           (fst (publish_wallpaper_thread ?env ?io ?a),
            run_callbacks b tk (snd (publish_wallpaper_thread ?env ?io ?a)) ?a)" for b tk
    by (rule publish_wallpaper_valid) (simp_all add: py_truthy_def s)
  have h1: "selected_image_path ?a = Some ''/home/u/photo.png''" by simp
  have h2: "open_rb ?io = None" by simp
  have h3: "r2_client ?a = Some R2Client" by simp
  have h4: "upload_fileobj ?io = Some ''AccessDenied''" by simp
  note u = upload_failure_outcome[where env = "?env" and a = "?a" and io = "?io",
             OF h1 h2 h3 h4]
  have b: "?env ''R2_BUCKET_NAME'' = Some ''wallpapers''" by simp
  show ?thesis
    unfolding Let_def example_form
    by (simp add: v u b example_suffix del: map_of.simps)
qed

lemma public_url_not_required: "''R2_PUBLIC_URL'' \<notin> set required_vars"
  by (simp add: required_vars_def)

lemma missing_vars_set:
  "set (missing_vars env) = {var \<in> set required_vars. \<not> py_truthy (env var)}"
  by (simp add: missing_vars_def)

lemma load_environment_reports_missing:
  "load_environment True env =
     (if \<exists>var \<in> set required_vars. \<not> py_truthy (env var)
      then Inl (ShowError ''Error''
                  (''Missing environment variables: ''
                     @ py_join '', '' (filter (\<lambda>var. \<not> py_truthy (env var)) required_vars)))
      else Inr (py_strip_chars [CHR 0x22]
                  (case env ''GEMINI_API_KEY'' of None \<Rightarrow> [] | Some v \<Rightarrow> v)))"
  by (simp add: load_environment_def missing_vars_def filter_empty_conv)

text \<open>
  Claim C1, evaluated where it fails. With the six variables of \<open>required_vars\<close> set and
  \<^verbatim>\<open>R2_PUBLIC_URL\<close> absent, \<^verbatim>\<open>load_environment\<close> does not abort start-up, \<^verbatim>\<open>__init__\<close>
  completes without a message box, and a publish then inserts a row whose \<open>image_url\<close>
  starts with the text \<^verbatim>\<open>None\<close>.
\<close>

theorem public_url_never_validated:
  "let env = map_of [(''NEXT_PUBLIC_SUPABASE_URL'', ''https://db.example.com''),
                     (''NEXT_PUBLIC_SUPABASE_ANON_KEY'', ''anon''),
                     (''R2_ACCOUNT_ID'', ''acct''),
                     (''R2_ACCESS_KEY_ID'', ''keyid''),
                     (''R2_SECRET_ACCESS_KEY'', ''secret''),
                     (''R2_BUCKET_NAME'', ''wallpapers'')];
       a = (select_image ''/home/u/photo.png'' None
            ((initialize_services \<lparr>create_client = None, boto3_client = None\<rparr> (setup_ui []))
               \<lparr>title_entry := ''Mountain'', category_var := ''nature''\<rparr>));
       io = \<lparr>uuid4 = ''1b9d6bcd-bbfd'', open_rb = None, upload_fileobj = None,
             insert_execute = Inr [JObj []]\<rparr>
   in env ''R2_PUBLIC_URL'' = None
      \<and> load_environment True env = Inr []
      \<and> (case init True env \<lparr>create_client = None, boto3_client = None\<rparr> of
             Inl d \<Rightarrow> False
           | Inr started \<Rightarrow>
               dialogs started = []
               \<and> status_label started = (''Services initialized successfully'', ''green''))
      \<and> fst (publish_wallpaper_thread env io a) =
            [UploadFileobj ''/home/u/photo.png'' (Some ''wallpapers'') ''1b9d6bcd-bbfd.png''
               ''image/png'',
             InsertWallpapers
               \<lparr>title = ''Mountain'', description = [], category = ''nature'', tags = [],
                image_url = ''None/1b9d6bcd-bbfd.png''\<rparr>]"
proof -
  let ?a = "\<lparr>gemini_api_key = [],
      supabase_client = Some SupabaseClient,
      r2_client = Some R2Client,
      selected_image_path = Some ''/home/u/photo.png'',
      preview_image = Some (PhotoImage ''/home/u/photo.png''),
      generated_metadata = JObj [],
      image_path_label = (''photo.png'', ''black''),
      preview_label = (Some (PhotoImage ''/home/u/photo.png''), []),
      generate_btn = DISABLED,
      gemini_key_entry = [],
      title_entry = ''Mountain'',
      category_var = ''nature'',
      tags_entry = [],
      description_text = [],
      progress_bar = False,
      status_label = (''Services initialized successfully'', ''green''),
      publish_btn = NORMAL,
      dialogs = []\<rparr>"
  let ?io = "\<lparr>uuid4 = ''1b9d6bcd-bbfd'', open_rb = None, upload_fileobj = None,
             insert_execute = Inr [JObj []]\<rparr>"
  let ?env = "map_of [(''NEXT_PUBLIC_SUPABASE_URL'', ''https://db.example.com''),
                     (''NEXT_PUBLIC_SUPABASE_ANON_KEY'', ''anon''),
                     (''R2_ACCOUNT_ID'', ''acct''),
                     (''R2_ACCESS_KEY_ID'', ''keyid''),
                     (''R2_SECRET_ACCESS_KEY'', ''secret''),
                     (''R2_BUCKET_NAME'', ''wallpapers'')]"
  have e: "?env ''R2_PUBLIC_URL'' = None" "?env ''GEMINI_API_KEY'' = None"
    "?env ''R2_BUCKET_NAME'' = Some ''wallpapers''" by simp_all
  have m: "missing_vars ?env = []"
    by (simp add: missing_vars_def required_vars_def py_truthy_def)
  have l: "load_environment True ?env = Inr []"
    by (simp add: load_environment_def m e py_strip_chars_def del: map_of.simps)
  have h1: "selected_image_path ?a = Some ''/home/u/photo.png''" by simp
  have h2: "open_rb ?io = None" by simp
  have h3: "r2_client ?a = Some R2Client" by simp
  have h4: "upload_fileobj ?io = None" by simp
  have h5: "supabase_client ?a = Some SupabaseClient" by simp
  have h6: "insert_execute ?io = Inr [JObj []]" by simp
  have h7: "[JObj []] \<noteq> []" by simp
  note t = publish_thread_success[where env = "?env" and a = "?a" and io = "?io",
             OF h1 h2 h3 h4 h5 h6 h7]
  have i: "init True ?env \<lparr>create_client = None, boto3_client = None\<rparr> =
             Inr (check_ready_state
                    (initialize_services \<lparr>create_client = None, boto3_client = None\<rparr>
                       (setup_ui [])))"
    by (simp add: init_def l del: map_of.simps)
  have started: "dialogs (check_ready_state
                    (initialize_services \<lparr>create_client = None, boto3_client = None\<rparr>
                       (setup_ui []))) = []"
    "status_label (check_ready_state
                    (initialize_services \<lparr>create_client = None, boto3_client = None\<rparr>
                       (setup_ui []))) = (''Services initialized successfully'', ''green'')"
    by (simp_all add: check_ready_state_fields initialize_services_def update_status_def
          setup_ui_def)
  show ?thesis
    unfolding Let_def example_form
    by (simp add: t e l i started example_row example_suffix py_format_def del: map_of.simps)
qed

end
